theory Spec2Isabelle
  imports Complex_Main
begin

section \<open>Values, errors and the outside world\<close>

text \<open>
  The three modules verified here are \<^verbatim>\<open>processing/ffmpeg/ffprobe.py\<close>,
  \<^verbatim>\<open>processing/ffmpeg/conversion.py\<close> and \<^verbatim>\<open>utils/scandiscord.py\<close>.
  Every \<^verbatim>\<open>raise\<close>, failed \<^verbatim>\<open>assert\<close> and failing subscript of the Python is a
  value of type \<open>error\<close>; a coroutine is a function from the process state to a result and
  the next state.
\<close>

datatype error =
    CommandError
  | JSONDecodeError
  | ValueError
  | KeyError
  | IndexError
  | TypeError
  | AttributeError
  | ZeroDivisionError
  | AssertionError
  | RuntimeError
  | NonBugError string
  | CannotReencode

text \<open>
  What \<^verbatim>\<open>json.loads\<close> returns. A dict is an association list (first binding of a key
  counts). A Python float is the rational number it stands for; infinities and NaN are
  left out. The arithmetic on floats is not exact: see \<open>fround\<close> and \<open>fsum\<close> below.
\<close>

datatype json =
    JNull
  | JBool bool
  | JNum rat
  | JStr string
  | JArr "json list"
  | JObj "(string \<times> json) list"

text \<open>\<^verbatim>\<open>x[key]\<close> for a string key.\<close>

fun getitem :: "json \<Rightarrow> string \<Rightarrow> error + json" where
  "getitem (JObj kvs) k = (case map_of kvs k of None \<Rightarrow> Inl KeyError | Some v \<Rightarrow> Inr v)"
| "getitem (JArr xs) k = Inl TypeError"
| "getitem (JStr s) k = Inl TypeError"
| "getitem (JNum r) k = Inl TypeError"
| "getitem (JBool b) k = Inl TypeError"
| "getitem JNull k = Inl TypeError"

text \<open>\<^verbatim>\<open>x[0]\<close>.\<close>

fun getfirst :: "json \<Rightarrow> error + json" where
  "getfirst (JArr xs) = (case xs of [] \<Rightarrow> Inl IndexError | x # _ \<Rightarrow> Inr x)"
| "getfirst (JObj kvs) = Inl KeyError"
| "getfirst (JStr s) = (case s of [] \<Rightarrow> Inl IndexError | c # _ \<Rightarrow> Inr (JStr [c]))"
| "getfirst (JNum r) = Inl TypeError"
| "getfirst (JBool b) = Inl TypeError"
| "getfirst JNull = Inl TypeError"

text \<open>Truth value of an object, as \<^verbatim>\<open>if x:\<close> and \<^verbatim>\<open>bool(x)\<close> take it.\<close>

fun truthy :: "json \<Rightarrow> bool" where
  "truthy JNull = False"
| "truthy (JBool b) = b"
| "truthy (JNum r) = (r \<noteq> 0)"
| "truthy (JStr s) = (s \<noteq> [])"
| "truthy (JArr xs) = (xs \<noteq> [])"
| "truthy (JObj kvs) = (kvs \<noteq> [])"

text \<open>Sequencing of steps that may raise.\<close>

definition bind_e :: "error + 'a \<Rightarrow> ('a \<Rightarrow> error + 'b) \<Rightarrow> error + 'b" where
  "bind_e m f = (case m of Inl err \<Rightarrow> Inl err | Inr x \<Rightarrow> f x)"

definition of_option :: "error \<Rightarrow> 'a option \<Rightarrow> error + 'a" where
  "of_option err m = (case m of None \<Rightarrow> Inl err | Some x \<Rightarrow> Inr x)"

text \<open>\<^verbatim>\<open>s.split("/")\<close>: the pieces between the separators, never an empty list.\<close>

fun split_on :: "char \<Rightarrow> string \<Rightarrow> string list" where
  "split_on sep [] = [[]]"
| "split_on sep (c # cs) =
     (if c = sep then [] # split_on sep cs
      else (case split_on sep cs of [] \<Rightarrow> [[c]] | p # ps \<Rightarrow> (c # p) # ps))"

text \<open>\<^verbatim>\<open>str(n)\<close> for an integer.\<close>

function digits :: "nat \<Rightarrow> string" where
  "digits n =
     (if n < 10 then [''0123456789'' ! n]
      else digits (n div 10) @ [''0123456789'' ! (n mod 10)])"
  by pat_completeness auto
termination
  by (relation "measure id") auto

definition str_int :: "int \<Rightarrow> string" where
  "str_int i = (if i < 0 then CHR ''-'' # digits (nat (- i)) else digits (nat i))"

subsection \<open>File handles and the process state\<close>

text \<open>
  A \<^verbatim>\<open>TempFile\<close> handle: \<open>fid\<close> stands for its unique file name, \<open>ext\<close> for the
  extension it was reserved with, \<open>lock_codec\<close> is the attribute of that name.
\<close>

record tempfile =
  fid :: nat
  ext :: string
  lock_codec :: bool

datatype mediatype = IMAGE | VIDEO | AUDIO | GIF | OTHER

text \<open>
  One argument of an external command: a string, or the name of a file (its unique name
  and extension).
\<close>

datatype arg = S string | F nat string

definition file_arg :: "tempfile \<Rightarrow> arg" where
  "file_arg f = F (fid f) (ext f)"

text \<open>
  The process state: the ledger's counter, the external commands run so far (oldest
  first), the coroutine objects created and those already awaited, and the three caches
  that \<^verbatim>\<open>functools.lru_cache\<close> keeps (most recently used first), each from a file to the
  coroutine object the decorated function returned for it.
\<close>

record state =
  next_id :: nat
  calls :: "arg list list"
  next_coro :: nat
  awaited :: "nat list"
  is_apng_cache :: "(nat \<times> nat) list"
  frame_rate_cache :: "(nat \<times> nat) list"
  duration_cache :: "(nat \<times> nat) list"

text \<open>
  What lies outside the three modules and is taken as a parameter: the external tools'
  standard output per command line (\<open>None\<close>: the tool failed and \<^verbatim>\<open>run_command\<close>
  raised), the parsers \<^verbatim>\<open>json.loads\<close>, \<^verbatim>\<open>float\<close> and \<^verbatim>\<open>int\<close> (\<open>None\<close>: they raise),
  what \<^verbatim>\<open>apng.APNG.open\<close> does (it raises, or it yields the frames: per frame its control
  chunk, \<open>None\<close> when the frame has none, else the control's \<open>delay\<close> and \<open>delay_den\<close>),
  and the handle's methods \<^verbatim>\<open>mediatype()\<close> and \<^verbatim>\<open>gif_loop_count()\<close>.

  Python's float arithmetic is a parameter too. \<open>fround x\<close> is the float that one
  division whose exact result is \<open>x\<close> returns (the double nearest to \<open>x\<close>), and
  \<open>fsum xs\<close> is what the builtin \<^verbatim>\<open>sum\<close> returns for the floats \<open>xs\<close>, whose rounding
  depends on the interpreter's version.
\<close>

record env =
  tool :: "arg list \<Rightarrow> string option"
  json_loads :: "string \<Rightarrow> json option"
  pyfloat :: "string \<Rightarrow> rat option"
  pyint :: "string \<Rightarrow> int option"
  apng_open :: "nat \<Rightarrow> error + (int \<times> int option) option list"
  mediatype_of :: "nat \<Rightarrow> error + mediatype"
  gif_loop_count :: "nat \<Rightarrow> error + int"
  fround :: "rat \<Rightarrow> rat"
  fsum :: "rat list \<Rightarrow> rat"

type_synonym 'a io = "state \<Rightarrow> (error + 'a) \<times> state"

definition return_io :: "'a \<Rightarrow> 'a io" where
  "return_io x s = (Inr x, s)"

definition raise_io :: "error \<Rightarrow> 'a io" where
  "raise_io err s = (Inl err, s)"

definition lift_io :: "error + 'a \<Rightarrow> 'a io" where
  "lift_io m s = (m, s)"

definition bind_io :: "'a io \<Rightarrow> ('a \<Rightarrow> 'b io) \<Rightarrow> 'b io" where
  "bind_io m f s = (case m s of (Inl err, s') \<Rightarrow> (Inl err, s') | (Inr x, s') \<Rightarrow> f x s')"

text \<open>
  Modelled from the spec: \<^verbatim>\<open>processing/run_command.py\<close> is not among the sources. The
  command is run once and recorded; a non-zero exit is raised, otherwise the tool's
  output is returned.
\<close>

definition run_command :: "env \<Rightarrow> arg list \<Rightarrow> string io" where
  "run_command e cmd s =
     (of_option CommandError (tool e cmd), s\<lparr>calls := calls s @ [cmd]\<rparr>)"

text \<open>
  Modelled from the spec: \<^verbatim>\<open>utils/tempfiles.py\<close> is not among the sources. A
  reservation issues a handle with a name no earlier reservation has (a counter), tagged
  with the extension, not codec-locked.
\<close>

definition reserve_tempfile :: "string \<Rightarrow> tempfile io" where
  "reserve_tempfile x s =
     (Inr \<lparr>fid = next_id s, ext = x, lock_codec = False\<rparr>, s\<lparr>next_id := Suc (next_id s)\<rparr>)"

text \<open>The encoder invocations among the recorded commands.\<close>

fun is_ffmpeg :: "arg list \<Rightarrow> bool" where
  "is_ffmpeg (S p # _) = (p = ''ffmpeg'')"
| "is_ffmpeg _ = False"

fun is_ffprobe :: "arg list \<Rightarrow> bool" where
  "is_ffprobe (S p # _) = (p = ''ffprobe'')"
| "is_ffprobe _ = False"

definition encoder_calls :: "state \<Rightarrow> arg list list" where
  "encoder_calls s = filter is_ffmpeg (calls s)"

definition probe_calls :: "state \<Rightarrow> arg list list" where
  "probe_calls s = filter is_ffprobe (calls s)"

section \<open>ffprobe.py\<close>

subsection \<open>\<^verbatim>\<open>@lru_cache(maxsize=128)\<close> on a coroutine function\<close>

text \<open>
  Calling an \<^verbatim>\<open>async def\<close> function runs nothing: it returns a coroutine object.
  \<^verbatim>\<open>lru_cache\<close> therefore stores the coroutine object of the first call for a file
  and hands the same object out on every later call for it (moving the entry to the
  front); a miss stores a new object and drops the least recently used entry beyond 128.
  Awaiting a coroutine object runs its body once; awaiting it again raises
  \<^verbatim>\<open>RuntimeError\<close> (cannot reuse already awaited coroutine).
\<close>

definition lru_hit :: "nat \<Rightarrow> nat \<Rightarrow> (nat \<times> nat) list \<Rightarrow> (nat \<times> nat) list" where
  "lru_hit k c cache = (k, c) # filter (\<lambda>p. fst p \<noteq> k) cache"

definition lru_miss :: "nat \<Rightarrow> nat \<Rightarrow> (nat \<times> nat) list \<Rightarrow> (nat \<times> nat) list" where
  "lru_miss k c cache = take 128 ((k, c) # cache)"

definition cached_call ::
  "(state \<Rightarrow> (nat \<times> nat) list) \<Rightarrow> ((nat \<times> nat) list \<Rightarrow> state \<Rightarrow> state) \<Rightarrow> nat \<Rightarrow> nat io" where
  "cached_call get put k s =
     (case map_of (get s) k of
        Some c \<Rightarrow> (Inr c, put (lru_hit k c (get s)) s)
      | None \<Rightarrow>
          (Inr (next_coro s),
           put (lru_miss k (next_coro s) (get s)) (s\<lparr>next_coro := Suc (next_coro s)\<rparr>)))"

definition await_coro :: "nat \<Rightarrow> 'a io \<Rightarrow> 'a io" where
  "await_coro c body s =
     (if c \<in> set (awaited s) then (Inl RuntimeError, s)
      else body (s\<lparr>awaited := c # awaited s\<rparr>))"

subsection \<open>The probes\<close>

definition loads :: "env \<Rightarrow> string \<Rightarrow> error + json" where
  "loads e out = of_option JSONDecodeError (json_loads e out)"

definition to_float :: "env \<Rightarrow> string \<Rightarrow> error + rat" where
  "to_float e x = of_option ValueError (pyfloat e x)"

text \<open>\<^verbatim>\<open>data["streams"][0]\<close>.\<close>

definition first_stream :: "json \<Rightarrow> error + json" where
  "first_stream data = bind_e (getitem data ''streams'') getfirst"

definition is_apng_cmd :: "tempfile \<Rightarrow> arg list" where
  "is_apng_cmd f =
     [S ''ffprobe'', file_arg f, S ''-v'', S ''panic'', S ''-select_streams'', S ''v:0'',
      S ''-print_format'', S ''json'', S ''-show_entries'', S ''stream=codec_name'']"

definition is_apng_body :: "env \<Rightarrow> tempfile \<Rightarrow> bool io" where
  "is_apng_body e f =
     bind_io (run_command e (is_apng_cmd f)) (\<lambda>out.
     lift_io (bind_e (loads e out) (\<lambda>data.
       bind_e (getitem data ''streams'') (\<lambda>streams.
         if truthy streams
         then bind_e (first_stream data) (\<lambda>st.
                bind_e (getitem st ''codec_name'') (\<lambda>c. Inr (c = JStr ''apng'')))
         else Inr False))))"

definition is_apng :: "env \<Rightarrow> tempfile \<Rightarrow> bool io" where
  "is_apng e f =
     bind_io (cached_call is_apng_cache (\<lambda>c. is_apng_cache_update (\<lambda>_. c)) (fid f))
       (\<lambda>c. await_coro c (is_apng_body e f))"

text \<open>
  \<^verbatim>\<open>control.delay / (control.delay_den or 100)\<close> for one frame: an attribute error when
  the frame has no control chunk, else the float quotient of the two integers.
\<close>

definition frame_delay :: "env \<Rightarrow> (int \<times> int option) option \<Rightarrow> error + rat" where
  "frame_delay e control =
     (case control of
        None \<Rightarrow> Inl AttributeError
      | Some (delay, den) \<Rightarrow>
          Inr (fround e (of_int delay /
                 of_int (case den of None \<Rightarrow> 100 | Some d \<Rightarrow> if d = 0 then 100 else d))))"

text \<open>The quotients of all frames, in order; the first frame without a control raises.\<close>

fun frame_delays :: "env \<Rightarrow> (int \<times> int option) option list \<Rightarrow> error + rat list" where
  "frame_delays e [] = Inr []"
| "frame_delays e (control # rest) =
     bind_e (frame_delay e control) (\<lambda>q.
     bind_e (frame_delays e rest) (\<lambda>qs. Inr (q # qs)))"

text \<open>\<^verbatim>\<open>sum(...)\<close>: the integer 0 for no summand, else the float sum.\<close>

definition py_sum :: "env \<Rightarrow> rat list \<Rightarrow> rat" where
  "py_sum e qs = (if qs = [] then 0 else fsum e qs)"

definition total_delay :: "env \<Rightarrow> (int \<times> int option) option list \<Rightarrow> error + rat" where
  "total_delay e frames = bind_e (frame_delays e frames) (\<lambda>qs. Inr (py_sum e qs))"

definition get_apng_framerate :: "env \<Rightarrow> tempfile \<Rightarrow> error + rat" where
  "get_apng_framerate e f =
     bind_e (apng_open e (fid f)) (\<lambda>frames.
     bind_e (total_delay e frames) (\<lambda>total.
       if total = 0 then Inl ZeroDivisionError
       else Inr (fround e (of_nat (length frames) / total))))"

definition get_apng_duration :: "env \<Rightarrow> tempfile \<Rightarrow> error + rat" where
  "get_apng_duration e f = bind_e (apng_open e (fid f)) (total_delay e)"

definition frame_rate_cmd :: "tempfile \<Rightarrow> arg list" where
  "frame_rate_cmd f =
     [S ''ffprobe'', file_arg f, S ''-v'', S ''panic'', S ''-select_streams'', S ''v:0'',
      S ''-print_format'', S ''json'', S ''-show_entries'', S ''stream=r_frame_rate,codec_name'']"

text \<open>\<^verbatim>\<open>float(rate[0]) / float(rate[1]) if len(rate) == 2 else float(rate[0])\<close>.\<close>

definition parse_rate :: "env \<Rightarrow> json \<Rightarrow> error + rat" where
  "parse_rate e r =
     (case r of
        JStr s \<Rightarrow>
          (case split_on CHR ''/'' s of
             [a, b] \<Rightarrow>
               bind_e (to_float e a) (\<lambda>x.
               bind_e (to_float e b) (\<lambda>y.
                 if y = 0 then Inl ZeroDivisionError else Inr (fround e (x / y))))
           | a # _ \<Rightarrow> to_float e a
           | [] \<Rightarrow> Inl IndexError)
      | _ \<Rightarrow> Inl AttributeError)"

definition get_frame_rate_body :: "env \<Rightarrow> tempfile \<Rightarrow> rat io" where
  "get_frame_rate_body e f =
     bind_io (run_command e (frame_rate_cmd f)) (\<lambda>out.
     lift_io (bind_e (loads e out) (\<lambda>data.
       bind_e (first_stream data) (\<lambda>st.
       bind_e (getitem st ''codec_name'') (\<lambda>c.
         if c = JStr ''apng'' then get_apng_framerate e f
         else bind_e (first_stream data) (\<lambda>st'.
              bind_e (getitem st' ''r_frame_rate'') (parse_rate e)))))))"

definition get_frame_rate :: "env \<Rightarrow> tempfile \<Rightarrow> rat io" where
  "get_frame_rate e f =
     bind_io (cached_call frame_rate_cache (\<lambda>c. frame_rate_cache_update (\<lambda>_. c)) (fid f))
       (\<lambda>c. await_coro c (get_frame_rate_body e f))"

definition duration_cmd :: "tempfile \<Rightarrow> arg list" where
  "duration_cmd f =
     [S ''ffprobe'', S ''-v'', S ''panic'', S ''-show_entries'', S ''format=duration'',
      S ''-of'', S ''default=noprint_wrappers=1:nokey=1'', file_arg f]"

definition get_duration_body :: "env \<Rightarrow> tempfile \<Rightarrow> rat io" where
  "get_duration_body e f =
     bind_io (run_command e (duration_cmd f)) (\<lambda>out.
     lift_io (if out = ''N/A'' then get_apng_duration e f else to_float e out))"

definition get_duration :: "env \<Rightarrow> tempfile \<Rightarrow> rat io" where
  "get_duration e f =
     bind_io (cached_call duration_cache (\<lambda>c. duration_cache_update (\<lambda>_. c)) (fid f))
       (\<lambda>c. await_coro c (get_duration_body e f))"

text \<open>\<^verbatim>\<open>k in x\<close> for a string \<open>k\<close>.\<close>

fun starts_with :: "string \<Rightarrow> string \<Rightarrow> bool" where
  "starts_with [] s = True"
| "starts_with (k # ks) [] = False"
| "starts_with (k # ks) (c # cs) = (k = c \<and> starts_with ks cs)"

fun is_substr :: "string \<Rightarrow> string \<Rightarrow> bool" where
  "is_substr k [] = (k = [])"
| "is_substr k (c # cs) = (starts_with k (c # cs) \<or> is_substr k cs)"

fun json_in :: "string \<Rightarrow> json \<Rightarrow> error + bool" where
  "json_in k (JObj kvs) = Inr (map_of kvs k \<noteq> None)"
| "json_in k (JArr xs) = Inr (JStr k \<in> set xs)"
| "json_in k (JStr s) = Inr (is_substr k s)"
| "json_in k (JNum r) = Inl TypeError"
| "json_in k (JBool b) = Inl TypeError"
| "json_in k JNull = Inl TypeError"

text \<open>\<^verbatim>\<open>float(x)\<close> of a JSON value.\<close>

fun float_of_json :: "env \<Rightarrow> json \<Rightarrow> error + rat" where
  "float_of_json e (JStr s) = to_float e s"
| "float_of_json e (JNum r) = Inr r"
| "float_of_json e (JBool b) = Inr (if b then 1 else 0)"
| "float_of_json e (JArr xs) = Inl TypeError"
| "float_of_json e (JObj kvs) = Inl TypeError"
| "float_of_json e JNull = Inl TypeError"

text \<open>\<^verbatim>\<open>x % m\<close> for a positive \<open>m\<close>: the remainder has the sign of \<open>m\<close>.\<close>

definition pymod :: "rat \<Rightarrow> rat \<Rightarrow> rat" where
  "pymod x m = x - of_int \<lfloor>x / m\<rfloor> * m"

definition resolution_cmd :: "tempfile \<Rightarrow> arg list" where
  "resolution_cmd f =
     [S ''ffprobe'', S ''-v'', S ''panic'', S ''-select_streams'', S ''v:0'', S ''-show_entries'',
      S ''stream=width,height:stream_tags=rotate'', S ''-print_format'', S ''json'', file_arg f]"

text \<open>The part of \<^verbatim>\<open>get_resolution\<close> after \<^verbatim>\<open>json.loads\<close>.\<close>

definition resolution_of :: "env \<Rightarrow> json \<Rightarrow> error + json list" where
  "resolution_of e out =
     bind_e (first_stream out) (\<lambda>st.
     bind_e (getitem st ''width'') (\<lambda>w.
     bind_e (getitem st ''height'') (\<lambda>h.
     bind_e (json_in ''tags'' st) (\<lambda>has_tags.
       if has_tags then
         bind_e (getitem st ''tags'') (\<lambda>tags.
         bind_e (json_in ''rotate'' tags) (\<lambda>has_rotate.
           if has_rotate then
             bind_e (getitem tags ''rotate'') (\<lambda>r.
             bind_e (float_of_json e r) (\<lambda>rot.
               if pymod rot 90 = 0 \<and> \<not> pymod rot 180 = 0 then Inr [h, w]
               else Inr [w, h]))
           else Inr [w, h]))
       else Inr [w, h]))))"

definition get_resolution :: "env \<Rightarrow> tempfile \<Rightarrow> json list io" where
  "get_resolution e f =
     bind_io (run_command e (resolution_cmd f)) (\<lambda>out.
     lift_io (bind_e (loads e out) (resolution_of e)))"

definition vcodec_cmd :: "tempfile \<Rightarrow> arg list" where
  "vcodec_cmd f =
     [S ''ffprobe'', S ''-v'', S ''panic'', S ''-select_streams'', S ''v:0'', S ''-show_entries'',
      S ''stream=codec_name,codec_long_name'', S ''-print_format'', S ''json'', file_arg f]"

definition acodec_cmd :: "tempfile \<Rightarrow> arg list" where
  "acodec_cmd f =
     [S ''ffprobe'', S ''-v'', S ''panic'', S ''-select_streams'', S ''a:0'', S ''-show_entries'',
      S ''stream=codec_name,codec_long_name'', S ''-print_format'', S ''json'', file_arg f]"

text \<open>The first stream of the answer, or \<^verbatim>\<open>None\<close> when there is none.\<close>

definition stream_or_none :: "json \<Rightarrow> error + json" where
  "stream_or_none out =
     bind_e (getitem out ''streams'') (\<lambda>streams.
       if truthy streams then first_stream out else Inr JNull)"

definition get_vcodec :: "env \<Rightarrow> tempfile \<Rightarrow> json io" where
  "get_vcodec e f =
     bind_io (run_command e (vcodec_cmd f)) (\<lambda>out.
     lift_io (bind_e (loads e out) stream_or_none))"

definition get_acodec :: "env \<Rightarrow> tempfile \<Rightarrow> json io" where
  "get_acodec e f =
     bind_io (run_command e (acodec_cmd f)) (\<lambda>out.
     lift_io (bind_e (loads e out) stream_or_none))"

definition va_codecs_cmd :: "tempfile \<Rightarrow> arg list" where
  "va_codecs_cmd f =
     [S ''ffprobe'', S ''-v'', S ''panic'', S ''-show_entries'', S ''stream=codec_name,codec_type'',
      S ''-print_format'', S ''json'', file_arg f]"

text \<open>What a \<^verbatim>\<open>for\<close> loop over a JSON value visits.\<close>

fun json_iter :: "json \<Rightarrow> error + json list" where
  "json_iter (JArr xs) = Inr xs"
| "json_iter (JObj kvs) = Inr (map (\<lambda>p. JStr (fst p)) kvs)"
| "json_iter (JStr s) = Inr (map (\<lambda>c. JStr [c]) s)"
| "json_iter (JNum r) = Inl TypeError"
| "json_iter (JBool b) = Inl TypeError"
| "json_iter JNull = Inl TypeError"

text \<open>The loop of \<^verbatim>\<open>va_codecs\<close>, with \<open>vcodec\<close> and \<open>acodec\<close> so far (\<open>JNull\<close> is \<^verbatim>\<open>None\<close>).\<close>

fun va_scan :: "json list \<Rightarrow> json \<Rightarrow> json \<Rightarrow> error + (json \<times> json)" where
  "va_scan [] vcodec acodec = Inr (vcodec, acodec)"
| "va_scan (stream # rest) vcodec acodec =
     bind_e (getitem stream ''codec_type'') (\<lambda>t.
       if t = JStr ''video'' \<and> vcodec = JNull
       then bind_e (getitem stream ''codec_name'') (\<lambda>n. va_scan rest n acodec)
       else if t = JStr ''audio'' \<and> acodec = JNull
       then bind_e (getitem stream ''codec_name'') (\<lambda>n. va_scan rest vcodec n)
       else va_scan rest vcodec acodec)"

definition va_codecs_of :: "json \<Rightarrow> error + (json \<times> json) option" where
  "va_codecs_of out =
     bind_e (getitem out ''streams'') (\<lambda>streams.
       if truthy streams
       then bind_e (json_iter streams) (\<lambda>xs.
            bind_e (va_scan xs JNull JNull) (\<lambda>r. Inr (Some r)))
       else Inr None)"

definition va_codecs :: "env \<Rightarrow> tempfile \<Rightarrow> (json \<times> json) option io" where
  "va_codecs e f =
     bind_io (run_command e (va_codecs_cmd f)) (\<lambda>out.
     lift_io (bind_e (loads e out) va_codecs_of))"



definition quote :: string where
  "quote = [CHR 0x27]"




section \<open>conversion.py\<close>

definition COMMON_FLAGS :: "arg list" where
  "COMMON_FLAGS = [S ''-hide_banner'', S ''-y'']"

definition VIDEO_FLAGS :: "arg list" where
  "VIDEO_FLAGS = [S ''-movflags'', S ''+faststart'', S ''-max_muxing_queue_size'', S ''9999'']"

definition AUDIO_FLAGS :: "arg list" where
  "AUDIO_FLAGS = [S ''-c:a'', S ''aac'', S ''-q:a'', S ''2'']"

definition H264_FLAGS :: "arg list" where
  "H264_FLAGS = [S ''-c:v'', S ''libx264'', S ''-pix_fmt'', S ''yuv420p'', S ''-preset'', S ''ultrafast'']"

definition gif_filter :: "rat \<Rightarrow> string" where
  "gif_filter fps =
     (if fps > 50 then ''fps=fps=50,'' else []) @ ''split[s0][s1];'' @
     ''[s0]geq=r='' @ quote @ ''bitor(bitand(r(X,Y),248),4)'' @ quote @
     '':g='' @ quote @ ''bitor(bitand(g(X,Y),248),4)'' @ quote @
     '':b='' @ quote @ ''bitor(bitand(b(X,Y),248),4)'' @ quote @ '','' @
     ''palettegen=reserve_transparent=1:stats_mode=single[p];'' @
     ''[s1][p]paletteuse=dither=bayer:bayer_scale=3:new=1''"

definition videotogif_cmd :: "tempfile \<Rightarrow> int \<Rightarrow> rat \<Rightarrow> tempfile \<Rightarrow> arg list" where
  "videotogif_cmd video lc fps outname =
     [S ''ffmpeg''] @ COMMON_FLAGS @
     [S ''-i'', file_arg video, S ''-gifflags'', S ''-transdiff'', S ''-loop'', S (str_int lc),
      S ''-vf'', S (gif_filter fps), S ''-fps_mode'', S ''vfr'', file_arg outname]"

definition videotogif :: "env \<Rightarrow> tempfile \<Rightarrow> tempfile io" where
  "videotogif e video =
     bind_io (get_vcodec e video) (\<lambda>vc.
     bind_io (lift_io (getitem vc ''codec_name'')) (\<lambda>name.
       if name = JStr ''gif'' then return_io video
       else
         bind_io (reserve_tempfile ''gif'') (\<lambda>outname.
         bind_io (get_frame_rate e video) (\<lambda>fps.
         bind_io (lift_io (gif_loop_count e (fid video))) (\<lambda>lc.
         bind_io (run_command e (videotogif_cmd video lc fps outname)) (\<lambda>_.
         return_io outname))))))"

definition scale_even :: string where
  "scale_even = ''scale=ceil(iw/2)*2:ceil(ih/2)*2,premultiply=inplace=1''"

definition video_reencode_cmd :: "tempfile \<Rightarrow> json \<Rightarrow> json \<Rightarrow> tempfile \<Rightarrow> arg list" where
  "video_reencode_cmd video vcodec acodec outname =
     [S ''ffmpeg''] @ COMMON_FLAGS @ [S ''-i'', file_arg video, S ''-c:v''] @
     (if vcodec = JStr ''h264'' then [S ''copy''] else H264_FLAGS @ [S ''-vf'', S scale_even]) @
     [S ''-c:a''] @
     (if acodec = JStr ''aac'' then [S ''copy''] else AUDIO_FLAGS) @
     VIDEO_FLAGS @ [file_arg outname]"

definition video_reencode :: "env \<Rightarrow> tempfile \<Rightarrow> tempfile io" where
  "video_reencode e video =
     bind_io (lift_io (mediatype_of e (fid video))) (\<lambda>mt.
       if mt \<notin> {VIDEO, GIF} then raise_io AssertionError
       else
         bind_io (va_codecs e video) (\<lambda>r.
           case r of
             None \<Rightarrow> raise_io TypeError
           | Some (vcodec, acodec) \<Rightarrow>
               bind_io (reserve_tempfile ''mp4'') (\<lambda>outname.
               bind_io (run_command e (video_reencode_cmd video vcodec acodec outname)) (\<lambda>_.
               return_io outname))))"

definition audio_reencode_cmd :: "tempfile \<Rightarrow> json \<Rightarrow> tempfile \<Rightarrow> arg list" where
  "audio_reencode_cmd audio acodec outname =
     [S ''ffmpeg'', S ''-hide_banner'', S ''-i'', file_arg audio, S ''-c:a''] @
     (if acodec = JStr ''aac'' then [S ''copy''] else [S ''aac'', S ''-q:a'', S ''2'']) @
     [file_arg outname]"

definition audio_reencode :: "env \<Rightarrow> tempfile \<Rightarrow> tempfile io" where
  "audio_reencode e audio =
     bind_io (get_acodec e audio) (\<lambda>acodec.
     bind_io (reserve_tempfile ''m4a'') (\<lambda>outname.
     bind_io (run_command e (audio_reencode_cmd audio acodec outname)) (\<lambda>_.
     return_io outname)))"

definition mediatoimage_cmd :: "tempfile \<Rightarrow> string \<Rightarrow> json \<Rightarrow> tempfile \<Rightarrow> arg list" where
  "mediatoimage_cmd media imagetype name outname =
     [S ''ffmpeg'', S ''-hide_banner'', S ''-i'', file_arg media, S ''-frames:v'', S ''1'', S ''-c:v'',
      S (if name = JStr imagetype then ''copy'' else imagetype), S ''-pix_fmt'', S ''rgba'',
      file_arg outname]"

definition mediatoimage :: "env \<Rightarrow> tempfile \<Rightarrow> string \<Rightarrow> tempfile io" where
  "mediatoimage e media imagetype =
     bind_io (reserve_tempfile imagetype) (\<lambda>outname.
     bind_io (get_vcodec e media) (\<lambda>vc.
     bind_io (lift_io (getitem vc ''codec_name'')) (\<lambda>name.
     bind_io (run_command e (mediatoimage_cmd media imagetype name outname)) (\<lambda>_.
     return_io outname))))"

definition mediatopng :: "env \<Rightarrow> tempfile \<Rightarrow> tempfile io" where
  "mediatopng e media = mediatoimage e media ''png''"

definition allreencode :: "env \<Rightarrow> tempfile \<Rightarrow> tempfile io" where
  "allreencode e file =
     (if lock_codec file then return_io file
      else
        bind_io (lift_io (mediatype_of e (fid file))) (\<lambda>mt.
          case mt of
            IMAGE \<Rightarrow> mediatopng e file
          | VIDEO \<Rightarrow> video_reencode e file
          | AUDIO \<Rightarrow> audio_reencode e file
          | GIF \<Rightarrow> videotogif e file
          | OTHER \<Rightarrow> raise_io CannotReencode))"

definition force_image_cmd :: "tempfile \<Rightarrow> tempfile \<Rightarrow> arg list" where
  "force_image_cmd file outname =
     [S ''ffmpeg'', S ''-hide_banner'', S ''-i'', file_arg file, S ''-frames:v'', S ''1'', S ''-c:v'',
      S ''png'', S ''-pix_fmt'', S ''rgba'', file_arg outname]"

definition force_video_cmd :: "tempfile \<Rightarrow> tempfile \<Rightarrow> arg list" where
  "force_video_cmd file outname =
     [S ''ffmpeg'', S ''-hide_banner'', S ''-i'', file_arg file, S ''-c:v'', S ''libx264'',
      S ''-pix_fmt'', S ''yuv420p'', S ''-vf'', S scale_even, S ''-c:a'', S ''aac'',
      S ''-q:a'', S ''2'', S ''-max_muxing_queue_size'', S ''9999'', S ''-movflags'',
      S ''+faststart'', file_arg outname]"

definition force_audio_cmd :: "tempfile \<Rightarrow> tempfile \<Rightarrow> arg list" where
  "force_audio_cmd file outname =
     [S ''ffmpeg'', S ''-hide_banner'', S ''-i'', file_arg file, S ''-c:a'', S ''aac'', S ''-q:a'',
      S ''2'', file_arg outname]"

definition forcereencode :: "env \<Rightarrow> tempfile \<Rightarrow> tempfile io" where
  "forcereencode e file =
     bind_io (lift_io (mediatype_of e (fid file))) (\<lambda>mt.
       case mt of
         IMAGE \<Rightarrow>
           bind_io (reserve_tempfile ''png'') (\<lambda>outname.
           bind_io (run_command e (force_image_cmd file outname)) (\<lambda>_.
           return_io outname))
       | VIDEO \<Rightarrow>
           bind_io (reserve_tempfile ''mp4'') (\<lambda>outname.
           bind_io (run_command e (force_video_cmd file outname)) (\<lambda>_.
           return_io outname))
       | AUDIO \<Rightarrow>
           bind_io (reserve_tempfile ''m4a'') (\<lambda>outname.
           bind_io (run_command e (force_audio_cmd file outname)) (\<lambda>_.
           return_io outname))
       | GIF \<Rightarrow> videotogif e file
       | OTHER \<Rightarrow> raise_io CannotReencode)"

section \<open>scandiscord.py\<close>

subsection \<open>Messages\<close>

record embed =
  etype :: string
  eurl :: string
  thumbnail_url :: string

text \<open>Two \<^verbatim>\<open>discord.Attachment\<close> objects are equal when their ids are.\<close>

record attachment =
  aid :: nat
  aurl :: string
  filename :: string

datatype sticker_format = png_sticker | apng_sticker | lottie | gif_sticker

record sticker =
  surl :: string
  sformat :: sticker_format

datatype message_type = default_message | reply_message | thread_starter_message

text \<open>
  \<open>reference\<close> is \<open>None\<close> when the message has no reference, \<open>Some None\<close> when the
  reference is not resolved, and \<open>Some (Some r)\<close> when \<^verbatim>\<open>m.reference.resolved\<close> is \<open>r\<close>.
\<close>

datatype message =
  Message (mid: nat) (mtype: message_type) (reference: "message option option")
    (embeds: "embed list") (attachments: "attachment list") (stickers: "sticker list")

text \<open>A detected file: a plain URL string, or the \<^verbatim>\<open>TenorUrl\<close> built from a JSON value.\<close>

datatype candidate = Url string | TenorUrl json

text \<open>
  What \<^verbatim>\<open>asyncio.gather(..., return_exceptions=True)\<close> hands back for one task: the
  value the task returned, or the exception it raised.
\<close>

datatype result = RStr string | RInt int | RBool bool | RNone | RException

fun truthy_result :: "result \<Rightarrow> bool" where
  "truthy_result (RStr s) = (s \<noteq> [])"
| "truthy_result (RInt i) = (i \<noteq> 0)"
| "truthy_result (RBool b) = b"
| "truthy_result RNone = False"
| "truthy_result RException = True"

text \<open>
  The network and the configuration, taken as parameters: the body \<^verbatim>\<open>utils.common.fetch\<close>
  returns for a URL (\<open>None\<close>: it raises), what \<^verbatim>\<open>utils.web.contentlength\<close> yields for
  a URL, \<^verbatim>\<open>config.tenor_key\<close>, and \<^verbatim>\<open>json.loads\<close> (\<open>None\<close>: it raises).
\<close>

record net =
  fetch :: "string \<Rightarrow> string option"
  contentlength :: "string \<Rightarrow> result"
  tenor_key :: string
  parse_json :: "string \<Rightarrow> json option"

subsection \<open>The two regular expressions\<close>

definition is_digit :: "char \<Rightarrow> bool" where
  "is_digit c = List.member ''0123456789'' c"

definition view_path :: "string \<Rightarrow> string option" where
  "view_path url =
     (if starts_with ''https://tenor.com/view/'' url
      then Some (drop (length ''https://tenor.com/view/'') url)
      else if starts_with ''http://tenor.com/view/'' url
      then Some (drop (length ''http://tenor.com/view/'') url)
      else None)"

text \<open>
  \<^verbatim>\<open>tenor_url_regex.fullmatch(url)\<close> for \<^verbatim>\<open>https?://tenor\.com/view/([^-]+-)*(\d+)/?\<close>:
  the second group of the match, if the URL matches. After the prefix, every piece
  before the last dash is non-empty and what follows the last dash is a run of digits
  with an optional slash.
\<close>

definition tenor_url_regex :: "string \<Rightarrow> string option" where
  "tenor_url_regex url =
     (case view_path url of
        None \<Rightarrow> None
      | Some rest \<Rightarrow>
          (let pieces = split_on CHR ''-'' rest;
               tail = last pieces;
               ds = (if tail \<noteq> [] \<and> last tail = CHR ''/'' then butlast tail else tail)
           in if list_all (\<lambda>p. p \<noteq> []) (butlast pieces) \<and> ds \<noteq> [] \<and> list_all is_digit ds
              then Some ds else None))"

text \<open>
  \<^verbatim>\<open>txt_file_regex.match(name)\<close> for \<^verbatim>\<open>.*\.txt$\<close>, ignoring case: the name, less one final
  newline, has no newline and ends in \<^verbatim>\<open>.txt\<close>.
\<close>

definition ends_txt :: "string \<Rightarrow> bool" where
  "ends_txt s =
     (case rev s of
        c4 # c3 # c2 # c1 # _ \<Rightarrow>
          c1 = CHR ''.'' \<and> (c2 = CHR ''t'' \<or> c2 = CHR ''T'') \<and>
          (c3 = CHR ''x'' \<or> c3 = CHR ''X'') \<and> (c4 = CHR ''t'' \<or> c4 = CHR ''T'')
      | _ \<Rightarrow> False)"

definition txt_file_regex :: "string \<Rightarrow> bool" where
  "txt_file_regex name =
     (let line = (if name \<noteq> [] \<and> last name = CHR 0x0A then butlast name else name)
      in \<not> List.member line (CHR 0x0A) \<and> ends_txt line)"

subsection \<open>\<^verbatim>\<open>handlemessagesave\<close>\<close>

datatype task = Fetch string | ContentLength string

definition tenor_api :: "net \<Rightarrow> string \<Rightarrow> string" where
  "tenor_api n gif_id =
     ''https://tenor.googleapis.com/v2/posts?ids='' @ gif_id @ ''&key='' @ tenor_key n @
     ''&limit=1''"

text \<open>The tasks the loop over \<^verbatim>\<open>m.embeds\<close> creates, in order.\<close>

fun embed_tasks :: "net \<Rightarrow> embed list \<Rightarrow> task list" where
  "embed_tasks n [] = []"
| "embed_tasks n (em # rest) =
     (if etype em = ''gifv''
      then (case tenor_url_regex (eurl em) of
              Some gif_id \<Rightarrow> [Fetch (tenor_api n gif_id)]
            | None \<Rightarrow> [])
      else if List.member [''image'', ''video'', ''audio''] (etype em)
      then ContentLength (eurl em) #
           (if etype em = ''image'' then [ContentLength (thumbnail_url em)] else [])
      else []) @ embed_tasks n rest"

fun run_task :: "net \<Rightarrow> task \<Rightarrow> result" where
  "run_task n (Fetch u) = (case fetch n u of None \<Rightarrow> RException | Some body \<Rightarrow> RStr body)"
| "run_task n (ContentLength u) = contentlength n u"

text \<open>\<^verbatim>\<open>tenor_data['results'][0]['media_formats']['mp4']['url']\<close>.\<close>

definition tenor_mp4 :: "json \<Rightarrow> error + json" where
  "tenor_mp4 tenor_data =
     bind_e (getitem tenor_data ''results'') (\<lambda>rs.
     bind_e (getfirst rs) (\<lambda>r.
     bind_e (getitem r ''media_formats'') (\<lambda>formats.
     bind_e (getitem formats ''mp4'') (\<lambda>mp4.
     getitem mp4 ''url''))))"

text \<open>
  The loop over the gathered results. \<open>url\<close> is \<^verbatim>\<open>embed.url\<close>, where \<^verbatim>\<open>embed\<close> is what the
  earlier loop left in its variable: the last embed of the message.
\<close>

fun process_results :: "net \<Rightarrow> string \<Rightarrow> result list \<Rightarrow> error + candidate list" where
  "process_results n url [] = Inr []"
| "process_results n url (RStr body # rest) =
     bind_e (of_option JSONDecodeError (parse_json n body)) (\<lambda>tenor_data.
     bind_e (json_in ''results'' tenor_data) (\<lambda>has_results.
       if has_results
       then bind_e (tenor_mp4 tenor_data) (\<lambda>u.
            bind_e (process_results n url rest) (\<lambda>found. Inr (TenorUrl u # found)))
       else process_results n url rest))"
| "process_results n url (r # rest) =
     (if truthy_result r
      then bind_e (process_results n url rest) (\<lambda>found. Inr (Url url # found))
      else process_results n url rest)"

definition embed_files :: "net \<Rightarrow> message \<Rightarrow> error + candidate list" where
  "embed_files n m =
     (if embeds m \<noteq> []
      then process_results n (eurl (last (embeds m)))
             (map (run_task n) (embed_tasks n (embeds m)))
      else Inr [])"

definition attachment_files :: "attachment list option \<Rightarrow> message \<Rightarrow> candidate list" where
  "attachment_files ignoreatts m =
     (if attachments m \<noteq> [] \<and>
         (case ignoreatts of
            None \<Rightarrow> True
          | Some ign \<Rightarrow> list_ex (\<lambda>att. \<not> List.member (map aid ign) (aid att)) (attachments m))
      then map (\<lambda>att. Url (aurl att))
             (filter (\<lambda>att. \<not> txt_file_regex (filename att)) (attachments m))
      else [])"

definition sticker_files :: "message \<Rightarrow> candidate list" where
  "sticker_files m =
     map (\<lambda>st. Url (surl st)) (filter (\<lambda>st. sformat st \<noteq> lottie) (stickers m))"

text \<open>The message the extraction works on: a thread's starter is replaced by its origin.\<close>

definition extraction_message :: "message \<Rightarrow> error + message" where
  "extraction_message m =
     (if mtype m = thread_starter_message
      then (case reference m of
              Some (Some r) \<Rightarrow> Inr r
            | _ \<Rightarrow> Inl AttributeError)
      else Inr m)"

definition handlemessagesave ::
  "net \<Rightarrow> message \<Rightarrow> attachment list option \<Rightarrow> error + candidate list" where
  "handlemessagesave n m ignoreatts =
     bind_e (extraction_message m) (\<lambda>m'.
     bind_e (embed_files n m') (\<lambda>found.
     Inr (found @ attachment_files ignoreatts m' @ sticker_files m')))"

subsection \<open>\<^verbatim>\<open>imagesearch\<close>\<close>

text \<open>The function returns \<^verbatim>\<open>False\<close> or a list.\<close>

datatype search_result = NotFound | Found "candidate list"

text \<open>\<^verbatim>\<open>xs[:n]\<close>.\<close>

definition py_prefix :: "int \<Rightarrow> 'a list \<Rightarrow> 'a list" where
  "py_prefix n xs = (if 0 \<le> n then take (nat n) xs else take (length xs - nat (- n)) xs)"

text \<open>
  The command context: the triggering message and what
  \<^verbatim>\<open>ctx.channel.history(before=ctx.message)\<close> would yield without a limit, newest first.
\<close>

record command_context =
  message :: message
  channel_history :: "message list"

text \<open>The loop over the channel history, with \<^verbatim>\<open>seen_messages\<close> and \<^verbatim>\<open>outfiles\<close> so far.\<close>

fun history_walk ::
  "net \<Rightarrow> int \<Rightarrow> message list \<Rightarrow> nat list \<Rightarrow> candidate list \<Rightarrow> error + search_result" where
  "history_walk n nargs [] seen outfiles =
     Inr (if outfiles = [] then NotFound else Found outfiles)"
| "history_walk n nargs (m # ms) seen outfiles =
     (if \<not> List.member seen (mid m)
      then bind_e (handlemessagesave n m None) (\<lambda>found.
             if nargs \<le> int (length (outfiles @ found))
             then Inr (Found (py_prefix nargs (outfiles @ found)))
             else history_walk n nargs ms (mid m # seen) (outfiles @ found))
      else history_walk n nargs ms seen outfiles)"

definition imagesearch ::
  "net \<Rightarrow> command_context \<Rightarrow> int \<Rightarrow> attachment list option \<Rightarrow> error + search_result" where
  "imagesearch n ctx nargs ignore =
     bind_e (handlemessagesave n (message ctx) ignore) (\<lambda>found.
       if nargs \<le> int (length found) then Inr (Found (py_prefix nargs found))
       else
         (case reference (message ctx) of
            Some (Some ref_msg) \<Rightarrow>
              bind_e (handlemessagesave n ref_msg None) (\<lambda>found'.
                if nargs \<le> int (length (found @ found'))
                then Inr (Found (py_prefix nargs (found @ found')))
                else history_walk n nargs (take 50 (channel_history ctx))
                       [mid ref_msg, mid (message ctx)] (found @ found'))
          | _ \<Rightarrow>
              history_walk n nargs (take 50 (channel_history ctx)) [mid (message ctx)] found))"

text \<open>
  The messages of the bounded walk after the triggering one, in the order visited: the
  resolved reply target, then the first 50 of the history, each identifier once.
\<close>

fun unseen :: "message list \<Rightarrow> nat list \<Rightarrow> message list" where
  "unseen [] seen = []"
| "unseen (m # ms) seen =
     (if List.member seen (mid m) then unseen ms seen else m # unseen ms (mid m # seen))"

definition later_messages :: "command_context \<Rightarrow> message list" where
  "later_messages ctx =
     (case reference (message ctx) of
        Some (Some ref_msg) \<Rightarrow>
          ref_msg # unseen (take 50 (channel_history ctx)) [mid ref_msg, mid (message ctx)]
      | _ \<Rightarrow> unseen (take 50 (channel_history ctx)) [mid (message ctx)])"

section \<open>Concrete inputs\<close>

text \<open>
  The float arithmetic of every environment below is the exact one. The numbers that
  occur in the examples (25, 12.5, 0.5, 1.5, 2, 3) are binary fractions of a few bits,
  on which double arithmetic, and either summation algorithm of \<^verbatim>\<open>sum\<close>, is exact.
\<close>

text \<open>A fresh process in which the ledger has issued one file, number 0.\<close>

definition s0 :: state where
  "s0 = \<lparr>next_id = 1, calls = [], next_coro = 0, awaited = [],
          is_apng_cache = [], frame_rate_cache = [], duration_cache = []\<rparr>"

definition video0 :: tempfile where
  "video0 = \<lparr>fid = 0, ext = ''mp4'', lock_codec = False\<rparr>"

definition locked0 :: tempfile where
  "locked0 = \<lparr>fid = 0, ext = ''mp4'', lock_codec = True\<rparr>"

definition gif0 :: tempfile where
  "gif0 = \<lparr>fid = 0, ext = ''gif'', lock_codec = False\<rparr>"

definition out1 :: tempfile where
  "out1 = \<lparr>fid = 1, ext = ''mp4'', lock_codec = False\<rparr>"

text \<open>A video file with an H.264 stream and an AAC stream, as the prober reports it.\<close>

definition h264_aac :: json where
  "h264_aac = JObj [(''streams'',
      JArr [JObj [(''codec_name'', JStr ''h264''), (''codec_type'', JStr ''video'')],
            JObj [(''codec_name'', JStr ''aac''), (''codec_type'', JStr ''audio'')]])]"

definition env_video :: env where
  "env_video = \<lparr>tool = (\<lambda>cmd. Some ''streams''), json_loads = (\<lambda>out. Some h264_aac),
     pyfloat = (\<lambda>x. None), pyint = (\<lambda>x. None), apng_open = (\<lambda>f. Inl ValueError),
     mediatype_of = (\<lambda>f. Inr VIDEO), gif_loop_count = (\<lambda>f. Inr 0),
     fround = (\<lambda>x. x), fsum = sum_list\<rparr>"

text \<open>A GIF file: one video stream whose codec is gif.\<close>

definition gif_stream :: json where
  "gif_stream = JObj [(''streams'',
      JArr [JObj [(''codec_name'', JStr ''gif''), (''codec_long_name'', JStr ''GIF'')]])]"

definition env_gif :: env where
  "env_gif = \<lparr>tool = (\<lambda>cmd. Some ''streams''), json_loads = (\<lambda>out. Some gif_stream),
     pyfloat = (\<lambda>x. None), pyint = (\<lambda>x. None), apng_open = (\<lambda>f. Inl ValueError),
     mediatype_of = (\<lambda>f. Inr GIF), gif_loop_count = (\<lambda>f. Inr 0),
     fround = (\<lambda>x. x), fsum = sum_list\<rparr>"

text \<open>
  An animated PNG whose stream entry also carries a generic frame rate of 25/1, and whose
  frame table has three frames of half a second each (the last two with an absent or
  zero denominator).
\<close>

definition apng0 :: tempfile where
  "apng0 = \<lparr>fid = 0, ext = ''png'', lock_codec = False\<rparr>"

definition apng_stream :: json where
  "apng_stream = JObj [(''streams'',
      JArr [JObj [(''codec_name'', JStr ''apng''), (''r_frame_rate'', JStr ''25/1'')]])]"

definition apng_table :: "(int \<times> int option) option list" where
  "apng_table = [Some (1, Some 2), Some (50, Some 0), Some (50, None)]"

definition env_apng :: env where
  "env_apng = \<lparr>tool = (\<lambda>cmd. Some ''streams''), json_loads = (\<lambda>out. Some apng_stream),
     pyfloat = (\<lambda>x. if x = ''25'' then Some 25 else if x = ''1'' then Some 1 else None),
     pyint = (\<lambda>x. None), apng_open = (\<lambda>f. Inr apng_table),
     mediatype_of = (\<lambda>f. Inr IMAGE), gif_loop_count = (\<lambda>f. Inr 0),
     fround = (\<lambda>x. x), fsum = sum_list\<rparr>"

text \<open>The same file when the prober answers every query with \<^verbatim>\<open>N/A\<close>.\<close>

definition env_unavailable :: env where
  "env_unavailable = \<lparr>tool = (\<lambda>cmd. Some ''N/A''), json_loads = (\<lambda>out. None),
     pyfloat = (\<lambda>x. None), pyint = (\<lambda>x. None), apng_open = (\<lambda>f. Inr apng_table),
     mediatype_of = (\<lambda>f. Inr IMAGE), gif_loop_count = (\<lambda>f. Inr 0),
     fround = (\<lambda>x. x), fsum = sum_list\<rparr>"

text \<open>A file whose duration the prober reports as 12.5 seconds.\<close>

definition env_duration :: env where
  "env_duration = \<lparr>tool = (\<lambda>cmd. Some ''12.5''), json_loads = (\<lambda>out. None),
     pyfloat = (\<lambda>x. if x = ''12.5'' then Some (25 / 2) else None),
     pyint = (\<lambda>x. None), apng_open = (\<lambda>f. Inl ValueError),
     mediatype_of = (\<lambda>f. Inr VIDEO), gif_loop_count = (\<lambda>f. Inr 0),
     fround = (\<lambda>x. x), fsum = sum_list\<rparr>"

text \<open>A 1920x1080 stream, without tags and with a rotation tag.\<close>

definition plain_stream :: json where
  "plain_stream = JObj [(''streams'',
      JArr [JObj [(''width'', JNum 1920), (''height'', JNum 1080)]])]"

definition rotated_stream :: "string \<Rightarrow> json" where
  "rotated_stream r = JObj [(''streams'',
      JArr [JObj [(''width'', JNum 1920), (''height'', JNum 1080),
                  (''tags'', JObj [(''rotate'', JStr r)])]])]"

definition env_resolution :: "json \<Rightarrow> env" where
  "env_resolution data = \<lparr>tool = (\<lambda>cmd. Some ''streams''), json_loads = (\<lambda>out. Some data),
     pyfloat = (\<lambda>x. if x = ''90'' then Some 90 else if x = ''180'' then Some 180 else None),
     pyint = (\<lambda>x. None), apng_open = (\<lambda>f. Inl ValueError),
     mediatype_of = (\<lambda>f. Inr VIDEO), gif_loop_count = (\<lambda>f. Inr 0),
     fround = (\<lambda>x. x), fsum = sum_list\<rparr>"



text \<open>
  A network on which every length check of an embed URL answers 1000 bytes, and a message
  carrying one image embed, two attachments and one sticker.
\<close>

definition net0 :: net where
  "net0 = \<lparr>fetch = (\<lambda>u. None), contentlength = (\<lambda>u. RInt 1000), tenor_key = ''key'',
           parse_json = (\<lambda>body. None)\<rparr>"

definition att_a :: attachment where
  "att_a = \<lparr>aid = 1, aurl = ''https://cdn.example/a.png'', filename = ''a.png''\<rparr>"

definition att_b :: attachment where
  "att_b = \<lparr>aid = 2, aurl = ''https://cdn.example/b.png'', filename = ''b.png''\<rparr>"

definition sticker_s :: sticker where
  "sticker_s = \<lparr>surl = ''https://cdn.example/s.png'', sformat = png_sticker\<rparr>"

definition embed_e :: embed where
  "embed_e = \<lparr>etype = ''video'', eurl = ''https://host.example/e.mp4'', thumbnail_url = []\<rparr>"

definition msg_two :: message where
  "msg_two = Message 10 default_message None [] [att_a, att_b] []"

definition msg_mixed :: message where
  "msg_mixed = Message 11 default_message None [embed_e] [att_a] [sticker_s]"

definition msg_empty :: message where
  "msg_empty = Message 12 default_message None [] [] []"

definition ctx_two :: command_context where
  "ctx_two = \<lparr>message = msg_two, channel_history = []\<rparr>"

definition ctx_empty :: command_context where
  "ctx_empty = \<lparr>message = msg_empty, channel_history = [msg_empty, msg_mixed]\<rparr>"

definition ctx_nothing :: command_context where
  "ctx_nothing = \<lparr>message = msg_empty, channel_history = [msg_empty]\<rparr>"

text \<open>An audio file whose one stream is AAC, and a PNG image.\<close>

definition audio0 :: tempfile where
  "audio0 = \<lparr>fid = 0, ext = ''m4a'', lock_codec = False\<rparr>"

definition aac_entry :: json where
  "aac_entry = JObj [(''codec_name'', JStr ''aac''),
                     (''codec_long_name'', JStr ''AAC (Advanced Audio Coding)'')]"

definition env_audio :: env where
  "env_audio = \<lparr>tool = (\<lambda>cmd. Some ''streams''),
     json_loads = (\<lambda>out. Some (JObj [(''streams'', JArr [aac_entry])])),
     pyfloat = (\<lambda>x. None), pyint = (\<lambda>x. None), apng_open = (\<lambda>f. Inl ValueError),
     mediatype_of = (\<lambda>f. Inr AUDIO), gif_loop_count = (\<lambda>f. Inr 0),
     fround = (\<lambda>x. x), fsum = sum_list\<rparr>"

definition image0 :: tempfile where
  "image0 = \<lparr>fid = 0, ext = ''png'', lock_codec = False\<rparr>"

definition png_entry :: json where
  "png_entry = JObj [(''codec_name'', JStr ''png''),
                     (''codec_long_name'', JStr ''PNG (Portable Network Graphics) image'')]"

definition env_png :: env where
  "env_png = \<lparr>tool = (\<lambda>cmd. Some ''streams''),
     json_loads = (\<lambda>out. Some (JObj [(''streams'', JArr [png_entry])])),
     pyfloat = (\<lambda>x. None), pyint = (\<lambda>x. None), apng_open = (\<lambda>f. Inl ValueError),
     mediatype_of = (\<lambda>f. Inr IMAGE), gif_loop_count = (\<lambda>f. Inr 0),
     fround = (\<lambda>x. x), fsum = sum_list\<rparr>"

definition audio1 :: tempfile where
  "audio1 = \<lparr>fid = 1, ext = ''m4a'', lock_codec = False\<rparr>"

definition image1 :: tempfile where
  "image1 = \<lparr>fid = 1, ext = ''png'', lock_codec = False\<rparr>"

text \<open>A frame table whose second frame carries no control chunk.\<close>

definition apng_headless :: "(int \<times> int option) option list" where
  "apng_headless = [Some (1, Some 2), None]"

section \<open>Properties\<close>

subsection \<open>Running one step\<close>

lemmas io_defs = bind_io_def return_io_def raise_io_def lift_io_def run_command_def
  reserve_tempfile_def bind_e_def of_option_def

lemma snd_bind_io_cong:
  assumes "\<And>x s'. snd (f x s') = snd (g x s')"
  shows "snd (bind_io m f s) = snd (bind_io m g s)"
  using assms by (simp add: bind_io_def split: prod.splits sum.splits)

lemma va_codecs_run:
  assumes "tool e (va_codecs_cmd f) = Some out" and "json_loads e out = Some data"
  shows "va_codecs e f s = (va_codecs_of data, s\<lparr>calls := calls s @ [va_codecs_cmd f]\<rparr>)"
  using assms by (simp add: va_codecs_def loads_def io_defs)

lemma get_vcodec_run:
  assumes "tool e (vcodec_cmd f) = Some out" and "json_loads e out = Some data"
  shows "get_vcodec e f s = (stream_or_none data, s\<lparr>calls := calls s @ [vcodec_cmd f]\<rparr>)"
  using assms by (simp add: get_vcodec_def loads_def io_defs)

subsection \<open>The lock flag and the two re-encoding entry points\<close>

lemma file_arg_lock: "file_arg (f\<lparr>lock_codec := b\<rparr>) = file_arg f"
  by (simp add: file_arg_def)

lemma get_vcodec_lock: "get_vcodec e (f\<lparr>lock_codec := b\<rparr>) = get_vcodec e f"
  by (simp add: get_vcodec_def vcodec_cmd_def file_arg_lock)

lemma get_apng_framerate_lock:
  "get_apng_framerate e (f\<lparr>lock_codec := b\<rparr>) = get_apng_framerate e f"
  by (simp add: get_apng_framerate_def)

lemma get_frame_rate_lock:
  "get_frame_rate e (f\<lparr>lock_codec := b\<rparr>) = get_frame_rate e f"
  by (simp add: get_frame_rate_def get_frame_rate_body_def frame_rate_cmd_def
      get_apng_framerate_lock file_arg_lock cong: if_cong)

lemma videotogif_cmd_lock:
  "videotogif_cmd (f\<lparr>lock_codec := b\<rparr>) lc fps out = videotogif_cmd f lc fps out"
  by (simp add: videotogif_cmd_def file_arg_lock)

lemma videotogif_lock:
  "snd (videotogif e (f\<lparr>lock_codec := b\<rparr>) s) = snd (videotogif e f s)"
  unfolding videotogif_def get_vcodec_lock get_frame_rate_lock videotogif_cmd_lock
  apply (rule snd_bind_io_cong)
  apply (rule snd_bind_io_cong)
  apply (simp add: return_io_def)
  done

lemma forcereencode_lock:
  "snd (forcereencode e (f\<lparr>lock_codec := b\<rparr>) s) = snd (forcereencode e f s)"
  unfolding forcereencode_def
  apply simp
  apply (rule snd_bind_io_cong)
  subgoal for mt s'
    by (cases mt)
      (simp_all add: videotogif_lock force_image_cmd_def force_video_cmd_def
        force_audio_cmd_def file_arg_lock)
  done

text \<open>
  C1, as amended. A codec-locked file is returned by \<open>allreencode\<close> as it is, with no
  command run and no file reserved, whatever its media kind. \<open>forcereencode\<close> never
  reads the flag: for a handle with the flag set either way it runs the same commands
  and reserves the same files as for the handle itself.
\<close>

theorem allreencode_keeps_locked_file:
  "(lock_codec f \<longrightarrow> allreencode e f s = (Inr f, s)) \<and>
   snd (forcereencode e (f\<lparr>lock_codec := b\<rparr>) s) = snd (forcereencode e f s)"
  by (simp add: allreencode_def return_io_def forcereencode_lock)

theorem allreencode_keeps_locked_file_witness:
  "lock_codec locked0 \<and> allreencode env_video locked0 s0 = (Inr locked0, s0) \<and>
   snd (forcereencode env_video (locked0\<lparr>lock_codec := False\<rparr>) s0) =
   snd (forcereencode env_video locked0 s0)"
  using allreencode_keeps_locked_file [of locked0 env_video s0 False]
  by (simp add: locked0_def)

text \<open>
  C1 as stated fails for \<open>forcereencode\<close>: a codec-locked video is passed to the encoder
  and a new handle comes back.
\<close>

theorem forcereencode_locked_counterexample:
  "lock_codec locked0 \<and>
   fst (forcereencode env_video locked0 s0) = Inr out1 \<and>
   encoder_calls (snd (forcereencode env_video locked0 s0)) = [force_video_cmd locked0 out1]"
  by (simp add: forcereencode_def env_video_def locked0_def s0_def out1_def io_defs
      encoder_calls_def force_video_cmd_def)

subsection \<open>Files already in the canonical codec\<close>

lemma stream_copy_cmd:
  "video_reencode_cmd f (JStr ''h264'') (JStr ''aac'') outname =
   [S ''ffmpeg'', S ''-hide_banner'', S ''-y'', S ''-i'', file_arg f, S ''-c:v'', S ''copy'',
    S ''-c:a'', S ''copy'', S ''-movflags'', S ''+faststart'', S ''-max_muxing_queue_size'',
    S ''9999'', file_arg outname]"
  by (simp add: video_reencode_cmd_def COMMON_FLAGS_def VIDEO_FLAGS_def)

lemma video_reencode_copy:
  assumes "mediatype_of e (fid f) = Inr VIDEO"
    and "tool e (va_codecs_cmd f) = Some out" and "json_loads e out = Some data"
    and "va_codecs_of data = Inr (Some (JStr ''h264'', JStr ''aac''))"
  shows "video_reencode e f s =
     (case tool e (video_reencode_cmd f (JStr ''h264'') (JStr ''aac'')
                     \<lparr>fid = next_id s, ext = ''mp4'', lock_codec = False\<rparr>) of
        None \<Rightarrow> Inl CommandError
      | Some _ \<Rightarrow> Inr \<lparr>fid = next_id s, ext = ''mp4'', lock_codec = False\<rparr>,
      s\<lparr>next_id := Suc (next_id s),
        calls := calls s @ [va_codecs_cmd f,
          video_reencode_cmd f (JStr ''h264'') (JStr ''aac'')
            \<lparr>fid = next_id s, ext = ''mp4'', lock_codec = False\<rparr>]\<rparr>)"
  using assms
  by (simp add: video_reencode_def va_codecs_run[OF assms(2,3)] bind_io_def lift_io_def
      return_io_def raise_io_def reserve_tempfile_def run_command_def of_option_def
      split: option.splits)

lemma videotogif_gif:
  assumes "tool e (vcodec_cmd f) = Some out" and "json_loads e out = Some data"
    and "stream_or_none data = Inr st" and "getitem st ''codec_name'' = Inr (JStr ''gif'')"
  shows "videotogif e f s = (Inr f, s\<lparr>calls := calls s @ [vcodec_cmd f]\<rparr>)"
  using assms(3,4)
  by (simp add: videotogif_def get_vcodec_run[OF assms(1,2)] bind_io_def lift_io_def return_io_def)

lemma h264_aac_codecs: "va_codecs_of h264_aac = Inr (Some (JStr ''h264'', JStr ''aac''))"
  by (simp add: va_codecs_of_def h264_aac_def bind_e_def)

lemma gif_stream_first:
  "stream_or_none gif_stream =
     Inr (JObj [(''codec_name'', JStr ''gif''), (''codec_long_name'', JStr ''GIF'')])"
  by (simp add: stream_or_none_def gif_stream_def first_stream_def bind_e_def)

lemma get_acodec_run:
  assumes "tool e (acodec_cmd f) = Some out" and "json_loads e out = Some data"
  shows "get_acodec e f s = (stream_or_none data, s\<lparr>calls := calls s @ [acodec_cmd f]\<rparr>)"
  using assms by (simp add: get_acodec_def loads_def io_defs)

lemma audio_reencode_run:
  assumes "tool e (acodec_cmd f) = Some out" and "json_loads e out = Some data"
    and "stream_or_none data = Inr acodec"
  shows "audio_reencode e f s =
     (case tool e (audio_reencode_cmd f acodec
                     \<lparr>fid = next_id s, ext = ''m4a'', lock_codec = False\<rparr>) of
        None \<Rightarrow> Inl CommandError
      | Some _ \<Rightarrow> Inr \<lparr>fid = next_id s, ext = ''m4a'', lock_codec = False\<rparr>,
      s\<lparr>next_id := Suc (next_id s),
        calls := calls s @ [acodec_cmd f,
          audio_reencode_cmd f acodec
            \<lparr>fid = next_id s, ext = ''m4a'', lock_codec = False\<rparr>]\<rparr>)"
  using assms(3)
  by (simp add: audio_reencode_def get_acodec_run [OF assms(1,2)] bind_io_def
      return_io_def reserve_tempfile_def run_command_def of_option_def split: option.splits)

lemma mediatopng_run:
  assumes "tool e (vcodec_cmd f) = Some out" and "json_loads e out = Some data"
    and "stream_or_none data = Inr st" and "getitem st ''codec_name'' = Inr name"
  shows "mediatopng e f s =
     (case tool e (mediatoimage_cmd f ''png'' name
                     \<lparr>fid = next_id s, ext = ''png'', lock_codec = False\<rparr>) of
        None \<Rightarrow> Inl CommandError
      | Some _ \<Rightarrow> Inr \<lparr>fid = next_id s, ext = ''png'', lock_codec = False\<rparr>,
      s\<lparr>next_id := Suc (next_id s),
        calls := calls s @ [vcodec_cmd f,
          mediatoimage_cmd f ''png'' name
            \<lparr>fid = next_id s, ext = ''png'', lock_codec = False\<rparr>]\<rparr>)"
  using assms(3,4)
  by (simp add: mediatopng_def mediatoimage_def get_vcodec_run [OF assms(1,2)] bind_io_def
      lift_io_def return_io_def reserve_tempfile_def run_command_def of_option_def
      split: option.splits)

text \<open>What a step leaves of the ledger and of the encoder's record.\<close>

lemma bind_io_InrE:
  assumes "bind_io m k s = (Inr r, s')"
  obtains x s1 where "m s = (Inr x, s1)" and "k x s1 = (Inr r, s')"
  using assms by (auto simp add: bind_io_def split: prod.splits sum.splits)

lemma probe_step:
  assumes "run_command e cmd s = (r, s1)" and "\<not> is_ffmpeg cmd"
  shows "next_id s1 = next_id s \<and> encoder_calls s1 = encoder_calls s"
  using assms by (auto simp add: run_command_def encoder_calls_def)

lemma encoder_step:
  assumes "run_command e cmd s = (r, s1)" and "is_ffmpeg cmd"
  shows "next_id s1 = next_id s \<and> encoder_calls s1 = encoder_calls s @ [cmd]"
  using assms by (auto simp add: run_command_def encoder_calls_def)

lemma reserve_step:
  assumes "reserve_tempfile x s = (Inr r, s1)"
  shows "fid r = next_id s \<and> \<not> lock_codec r \<and> next_id s1 = Suc (next_id s) \<and>
         encoder_calls s1 = encoder_calls s"
  using assms by (auto simp add: reserve_tempfile_def encoder_calls_def)

lemma lift_step: "lift_io x s = (r, s1) \<Longrightarrow> s1 = s \<and> r = x"
  by (auto simp add: lift_io_def)

lemma get_vcodec_step:
  assumes "get_vcodec e f s = (r, s1)"
  shows "next_id s1 = next_id s \<and> encoder_calls s1 = encoder_calls s"
  using assms
  by (auto simp add: get_vcodec_def bind_io_def lift_io_def run_command_def encoder_calls_def
      vcodec_cmd_def split: sum.splits)

lemma get_acodec_step:
  assumes "get_acodec e f s = (r, s1)"
  shows "next_id s1 = next_id s \<and> encoder_calls s1 = encoder_calls s"
  using assms
  by (auto simp add: get_acodec_def bind_io_def lift_io_def run_command_def encoder_calls_def
      acodec_cmd_def split: sum.splits)

lemma va_codecs_step:
  assumes "va_codecs e f s = (r, s1)"
  shows "next_id s1 = next_id s \<and> encoder_calls s1 = encoder_calls s"
  using assms
  by (auto simp add: va_codecs_def bind_io_def lift_io_def run_command_def encoder_calls_def
      va_codecs_cmd_def split: sum.splits)

lemma get_frame_rate_body_step:
  assumes "get_frame_rate_body e f s = (r, s1)"
  shows "next_id s1 = next_id s \<and> encoder_calls s1 = encoder_calls s"
  using assms
  by (auto simp add: get_frame_rate_body_def bind_io_def lift_io_def run_command_def
      encoder_calls_def frame_rate_cmd_def split: sum.splits)

lemma get_frame_rate_step:
  assumes "get_frame_rate e f s = (r, s1)"
  shows "next_id s1 = next_id s \<and> encoder_calls s1 = encoder_calls s"
proof -
  have "\<exists>c s2.
      cached_call frame_rate_cache (\<lambda>c. frame_rate_cache_update (\<lambda>_. c)) (fid f) s =
        (Inr c, s2) \<and> next_id s2 = next_id s \<and> calls s2 = calls s"
    by (cases "map_of (frame_rate_cache s) (fid f)") (simp_all add: cached_call_def)
  then obtain c s2 where call:
    "cached_call frame_rate_cache (\<lambda>c. frame_rate_cache_update (\<lambda>_. c)) (fid f) s = (Inr c, s2)"
    and same: "next_id s2 = next_id s \<and> calls s2 = calls s"
    by blast
  from assms call have "await_coro c (get_frame_rate_body e f) s2 = (r, s1)"
    by (simp add: get_frame_rate_def bind_io_def)
  then have "s1 = s2 \<or> get_frame_rate_body e f (s2\<lparr>awaited := c # awaited s2\<rparr>) = (r, s1)"
    by (auto simp add: await_coro_def split: if_splits)
  then show ?thesis
    using same get_frame_rate_body_step [of e f "s2\<lparr>awaited := c # awaited s2\<rparr>" r s1]
    by (auto simp add: encoder_calls_def)
qed

lemma is_ffmpeg_cmds:
  "is_ffmpeg (video_reencode_cmd f vcodec acodec outname)"
  "is_ffmpeg (audio_reencode_cmd f acodec outname)"
  "is_ffmpeg (mediatoimage_cmd f imagetype name outname)"
  "is_ffmpeg (videotogif_cmd f lc fps outname)"
  by (simp_all add: video_reencode_cmd_def audio_reencode_cmd_def mediatoimage_cmd_def
      videotogif_cmd_def)

lemma audio_reencode_new:
  assumes "audio_reencode e f s = (Inr r, s')"
  shows "fid r = next_id s \<and> \<not> lock_codec r \<and> next_id s' = Suc (next_id s) \<and>
         (\<exists>cmd. encoder_calls s' = encoder_calls s @ [cmd])"
proof -
  from assms obtain acodec s1 where a: "get_acodec e f s = (Inr acodec, s1)"
    and rest: "bind_io (reserve_tempfile ''m4a'') (\<lambda>outname.
        bind_io (run_command e (audio_reencode_cmd f acodec outname)) (\<lambda>_.
        return_io outname)) s1 = (Inr r, s')"
    unfolding audio_reencode_def by (rule bind_io_InrE)
  from rest obtain outname s2 where b: "reserve_tempfile ''m4a'' s1 = (Inr outname, s2)"
    and rest2: "bind_io (run_command e (audio_reencode_cmd f acodec outname)) (\<lambda>_.
        return_io outname) s2 = (Inr r, s')"
    by (rule bind_io_InrE)
  from rest2 obtain x s3 where c: "run_command e (audio_reencode_cmd f acodec outname) s2 = (Inr x, s3)"
    and d: "return_io outname s3 = (Inr r, s')"
    by (rule bind_io_InrE)
  from d have "r = outname" "s' = s3" by (simp_all add: return_io_def)
  with get_acodec_step [OF a] reserve_step [OF b] encoder_step [OF c is_ffmpeg_cmds(2)]
  show ?thesis by auto
qed

lemma video_reencode_new:
  assumes "video_reencode e f s = (Inr r, s')"
  shows "fid r = next_id s \<and> \<not> lock_codec r \<and> next_id s' = Suc (next_id s) \<and>
         (\<exists>cmd. encoder_calls s' = encoder_calls s @ [cmd])"
proof -
  from assms obtain mt s0 where m: "lift_io (mediatype_of e (fid f)) s = (Inr mt, s0)"
    and rest0: "(if mt \<notin> {VIDEO, GIF} then raise_io AssertionError
       else bind_io (va_codecs e f) (\<lambda>r.
           case r of
             None \<Rightarrow> raise_io TypeError
           | Some (vcodec, acodec) \<Rightarrow>
               bind_io (reserve_tempfile ''mp4'') (\<lambda>outname.
               bind_io (run_command e (video_reencode_cmd f vcodec acodec outname)) (\<lambda>_.
               return_io outname)))) s0 = (Inr r, s')"
    unfolding video_reencode_def by (rule bind_io_InrE)
  from m have s0: "s0 = s" by (simp add: lift_io_def)
  from rest0 have rest: "bind_io (va_codecs e f) (\<lambda>r.
           case r of
             None \<Rightarrow> raise_io TypeError
           | Some (vcodec, acodec) \<Rightarrow>
               bind_io (reserve_tempfile ''mp4'') (\<lambda>outname.
               bind_io (run_command e (video_reencode_cmd f vcodec acodec outname)) (\<lambda>_.
               return_io outname))) s = (Inr r, s')"
    unfolding s0 by (simp add: raise_io_def split: if_splits)
  from rest obtain codecs s1 where a: "va_codecs e f s = (Inr codecs, s1)"
    and rest1: "(case codecs of
             None \<Rightarrow> raise_io TypeError
           | Some (vcodec, acodec) \<Rightarrow>
               bind_io (reserve_tempfile ''mp4'') (\<lambda>outname.
               bind_io (run_command e (video_reencode_cmd f vcodec acodec outname)) (\<lambda>_.
               return_io outname))) s1 = (Inr r, s')"
    by (rule bind_io_InrE)
  from rest1 obtain vcodec acodec where
    rest2: "bind_io (reserve_tempfile ''mp4'') (\<lambda>outname.
               bind_io (run_command e (video_reencode_cmd f vcodec acodec outname)) (\<lambda>_.
               return_io outname)) s1 = (Inr r, s')"
    by (cases codecs) (auto simp add: raise_io_def)
  from rest2 obtain outname s2 where b: "reserve_tempfile ''mp4'' s1 = (Inr outname, s2)"
    and rest3: "bind_io (run_command e (video_reencode_cmd f vcodec acodec outname)) (\<lambda>_.
        return_io outname) s2 = (Inr r, s')"
    by (rule bind_io_InrE)
  from rest3 obtain x s3
    where c: "run_command e (video_reencode_cmd f vcodec acodec outname) s2 = (Inr x, s3)"
    and d: "return_io outname s3 = (Inr r, s')"
    by (rule bind_io_InrE)
  from d have "r = outname" "s' = s3" by (simp_all add: return_io_def)
  with va_codecs_step [OF a] reserve_step [OF b] encoder_step [OF c is_ffmpeg_cmds(1)]
  show ?thesis by auto
qed

lemma mediatopng_new:
  assumes "mediatopng e f s = (Inr r, s')"
  shows "fid r = next_id s \<and> \<not> lock_codec r \<and> next_id s' = Suc (next_id s) \<and>
         (\<exists>cmd. encoder_calls s' = encoder_calls s @ [cmd])"
proof -
  from assms obtain outname s1 where b: "reserve_tempfile ''png'' s = (Inr outname, s1)"
    and rest: "bind_io (get_vcodec e f) (\<lambda>vc.
        bind_io (lift_io (getitem vc ''codec_name'')) (\<lambda>name.
        bind_io (run_command e (mediatoimage_cmd f ''png'' name outname)) (\<lambda>_.
        return_io outname))) s1 = (Inr r, s')"
    unfolding mediatopng_def mediatoimage_def by (rule bind_io_InrE)
  from rest obtain vc s2 where a: "get_vcodec e f s1 = (Inr vc, s2)"
    and rest2: "bind_io (lift_io (getitem vc ''codec_name'')) (\<lambda>name.
        bind_io (run_command e (mediatoimage_cmd f ''png'' name outname)) (\<lambda>_.
        return_io outname)) s2 = (Inr r, s')"
    by (rule bind_io_InrE)
  from rest2 obtain name s3 where l: "lift_io (getitem vc ''codec_name'') s2 = (Inr name, s3)"
    and rest3: "bind_io (run_command e (mediatoimage_cmd f ''png'' name outname)) (\<lambda>_.
        return_io outname) s3 = (Inr r, s')"
    by (rule bind_io_InrE)
  from l have s3: "s3 = s2" by (simp add: lift_io_def)
  from rest3 obtain x s4
    where c: "run_command e (mediatoimage_cmd f ''png'' name outname) s3 = (Inr x, s4)"
    and d: "return_io outname s4 = (Inr r, s')"
    by (rule bind_io_InrE)
  from d have "r = outname" "s' = s4" by (simp_all add: return_io_def)
  with reserve_step [OF b] get_vcodec_step [OF a] s3 encoder_step [OF c is_ffmpeg_cmds(3)]
  show ?thesis by auto
qed

lemma videotogif_result:
  assumes "videotogif e f s = (Inr r, s')"
  shows "(r = f \<and> next_id s' = next_id s \<and> encoder_calls s' = encoder_calls s \<and>
          (\<exists>out data st. tool e (vcodec_cmd f) = Some out \<and> json_loads e out = Some data \<and>
             stream_or_none data = Inr st \<and> getitem st ''codec_name'' = Inr (JStr ''gif''))) \<or>
         (fid r = next_id s \<and> \<not> lock_codec r \<and> next_id s' = Suc (next_id s) \<and>
          (\<exists>cmd. encoder_calls s' = encoder_calls s @ [cmd]))"
proof -
  from assms obtain vc s1 where a: "get_vcodec e f s = (Inr vc, s1)"
    and rest: "bind_io (lift_io (getitem vc ''codec_name'')) (\<lambda>name.
       if name = JStr ''gif'' then return_io f
       else
         bind_io (reserve_tempfile ''gif'') (\<lambda>outname.
         bind_io (get_frame_rate e f) (\<lambda>fps.
         bind_io (lift_io (gif_loop_count e (fid f))) (\<lambda>lc.
         bind_io (run_command e (videotogif_cmd f lc fps outname)) (\<lambda>_.
         return_io outname))))) s1 = (Inr r, s')"
    unfolding videotogif_def by (rule bind_io_InrE)
  from rest obtain name s2 where l: "lift_io (getitem vc ''codec_name'') s1 = (Inr name, s2)"
    and rest2: "(if name = JStr ''gif'' then return_io f
       else
         bind_io (reserve_tempfile ''gif'') (\<lambda>outname.
         bind_io (get_frame_rate e f) (\<lambda>fps.
         bind_io (lift_io (gif_loop_count e (fid f))) (\<lambda>lc.
         bind_io (run_command e (videotogif_cmd f lc fps outname)) (\<lambda>_.
         return_io outname))))) s2 = (Inr r, s')"
    by (rule bind_io_InrE)
  from l have s2: "s2 = s1" and name: "getitem vc ''codec_name'' = Inr name"
    by (simp_all add: lift_io_def)
  show ?thesis
  proof (cases "name = JStr ''gif''")
    case True
    with rest2 have "r = f" "s' = s2" by (simp_all add: return_io_def)
    moreover from a obtain out data where "tool e (vcodec_cmd f) = Some out"
      and "json_loads e out = Some data" and "stream_or_none data = Inr vc"
      by (auto simp add: get_vcodec_def bind_io_def lift_io_def run_command_def of_option_def
          loads_def bind_e_def split: option.splits sum.splits)
    ultimately show ?thesis
      using get_vcodec_step [OF a] s2 name True by auto
  next
    case False
    with rest2 have rest3: "bind_io (reserve_tempfile ''gif'') (\<lambda>outname.
         bind_io (get_frame_rate e f) (\<lambda>fps.
         bind_io (lift_io (gif_loop_count e (fid f))) (\<lambda>lc.
         bind_io (run_command e (videotogif_cmd f lc fps outname)) (\<lambda>_.
         return_io outname)))) s2 = (Inr r, s')"
      by simp
    from rest3 obtain outname s3 where b: "reserve_tempfile ''gif'' s2 = (Inr outname, s3)"
      and rest4: "bind_io (get_frame_rate e f) (\<lambda>fps.
         bind_io (lift_io (gif_loop_count e (fid f))) (\<lambda>lc.
         bind_io (run_command e (videotogif_cmd f lc fps outname)) (\<lambda>_.
         return_io outname))) s3 = (Inr r, s')"
      by (rule bind_io_InrE)
    from rest4 obtain fps s4 where g: "get_frame_rate e f s3 = (Inr fps, s4)"
      and rest5: "bind_io (lift_io (gif_loop_count e (fid f))) (\<lambda>lc.
         bind_io (run_command e (videotogif_cmd f lc fps outname)) (\<lambda>_.
         return_io outname)) s4 = (Inr r, s')"
      by (rule bind_io_InrE)
    from rest5 obtain lc s5 where l2: "lift_io (gif_loop_count e (fid f)) s4 = (Inr lc, s5)"
      and rest6: "bind_io (run_command e (videotogif_cmd f lc fps outname)) (\<lambda>_.
         return_io outname) s5 = (Inr r, s')"
      by (rule bind_io_InrE)
    from l2 have s5: "s5 = s4" by (simp add: lift_io_def)
    from rest6 obtain x s6
      where c: "run_command e (videotogif_cmd f lc fps outname) s5 = (Inr x, s6)"
      and d: "return_io outname s6 = (Inr r, s')"
      by (rule bind_io_InrE)
    from d have "r = outname" "s' = s6" by (simp_all add: return_io_def)
    with get_vcodec_step [OF a] s2 reserve_step [OF b] get_frame_rate_step [OF g] s5
      encoder_step [OF c is_ffmpeg_cmds(4)]
    show ?thesis by auto
  qed
qed

lemma allreencode_result:
  assumes "\<not> lock_codec f" and "allreencode e f s = (Inr r, s')"
  shows "(r = f \<and> mediatype_of e (fid f) = Inr GIF \<and>
          next_id s' = next_id s \<and> encoder_calls s' = encoder_calls s \<and>
          (\<exists>out data st. tool e (vcodec_cmd f) = Some out \<and> json_loads e out = Some data \<and>
             stream_or_none data = Inr st \<and> getitem st ''codec_name'' = Inr (JStr ''gif''))) \<or>
         (fid r = next_id s \<and> \<not> lock_codec r \<and> next_id s' = Suc (next_id s) \<and>
          (\<exists>cmd. encoder_calls s' = encoder_calls s @ [cmd]))"
proof -
  from assms obtain mt s0 where m: "lift_io (mediatype_of e (fid f)) s = (Inr mt, s0)"
    and rest: "(case mt of
            IMAGE \<Rightarrow> mediatopng e f
          | VIDEO \<Rightarrow> video_reencode e f
          | AUDIO \<Rightarrow> audio_reencode e f
          | GIF \<Rightarrow> videotogif e f
          | OTHER \<Rightarrow> raise_io CannotReencode) s0 = (Inr r, s')"
    unfolding allreencode_def by (auto elim: bind_io_InrE)
  from m have s0: "s0 = s" and mt: "mediatype_of e (fid f) = Inr mt"
    by (simp_all add: lift_io_def)
  show ?thesis
  proof (cases mt)
    case IMAGE
    with rest s0 mediatopng_new [of e f s r s'] show ?thesis by simp
  next
    case VIDEO
    with rest s0 video_reencode_new [of e f s r s'] show ?thesis by simp
  next
    case AUDIO
    with rest s0 audio_reencode_new [of e f s r s'] show ?thesis by simp
  next
    case GIF
    with rest s0 mt videotogif_result [of e f s r s'] show ?thesis by auto
  next
    case OTHER
    with rest show ?thesis by (simp add: raise_io_def)
  qed
qed

text \<open>
  C2, as amended. For an unlocked file \<open>allreencode\<close> hands the input handle back only when
  the file is a GIF whose video codec is already gif: then it runs one probe, reserves
  nothing and runs no encoder. In every other case in which it returns, it returns the
  newly reserved handle, a different one from an input the ledger issued before, after
  exactly one reservation and exactly one encoder command. In particular, when the
  probes succeed: a VIDEO file whose first video stream is h264 and whose first audio
  stream is aac gets a new mp4 file into which one ffmpeg command copies both streams;
  an AUDIO file gets a new m4a file and one ffmpeg command, and an IMAGE file a new png
  file and one ffmpeg command, whatever their codecs.
\<close>

theorem allreencode_canonical_codec:
  "(\<not> lock_codec f \<and> mediatype_of e (fid f) = Inr VIDEO \<and>
    tool e (va_codecs_cmd f) = Some out \<and> json_loads e out = Some data \<and>
    va_codecs_of data = Inr (Some (JStr ''h264'', JStr ''aac'')) \<longrightarrow>
    (let outname = \<lparr>fid = next_id s, ext = ''mp4'', lock_codec = False\<rparr>;
         copy = [S ''ffmpeg'', S ''-hide_banner'', S ''-y'', S ''-i'', file_arg f,
                 S ''-c:v'', S ''copy'', S ''-c:a'', S ''copy'', S ''-movflags'',
                 S ''+faststart'', S ''-max_muxing_queue_size'', S ''9999'', file_arg outname]
     in allreencode e f s =
          (case tool e copy of None \<Rightarrow> Inl CommandError | Some _ \<Rightarrow> Inr outname,
           s\<lparr>next_id := Suc (next_id s),
             calls := calls s @ [va_codecs_cmd f, copy]\<rparr>))) \<and>
   (\<not> lock_codec f \<and> mediatype_of e (fid f) = Inr GIF \<and>
    tool e (vcodec_cmd f) = Some out \<and> json_loads e out = Some data \<and>
    stream_or_none data = Inr st \<and> getitem st ''codec_name'' = Inr (JStr ''gif'') \<longrightarrow>
    allreencode e f s = (Inr f, s\<lparr>calls := calls s @ [vcodec_cmd f]\<rparr>)) \<and>
   (\<not> lock_codec f \<and> mediatype_of e (fid f) = Inr AUDIO \<and>
    tool e (acodec_cmd f) = Some out \<and> json_loads e out = Some data \<and>
    stream_or_none data = Inr st \<longrightarrow>
    (let outname = \<lparr>fid = next_id s, ext = ''m4a'', lock_codec = False\<rparr>;
         cmd = audio_reencode_cmd f st outname
     in allreencode e f s =
          (case tool e cmd of None \<Rightarrow> Inl CommandError | Some _ \<Rightarrow> Inr outname,
           s\<lparr>next_id := Suc (next_id s),
             calls := calls s @ [acodec_cmd f, cmd]\<rparr>))) \<and>
   (\<not> lock_codec f \<and> mediatype_of e (fid f) = Inr IMAGE \<and>
    tool e (vcodec_cmd f) = Some out \<and> json_loads e out = Some data \<and>
    stream_or_none data = Inr st \<and> getitem st ''codec_name'' = Inr name \<longrightarrow>
    (let outname = \<lparr>fid = next_id s, ext = ''png'', lock_codec = False\<rparr>;
         cmd = mediatoimage_cmd f ''png'' name outname
     in allreencode e f s =
          (case tool e cmd of None \<Rightarrow> Inl CommandError | Some _ \<Rightarrow> Inr outname,
           s\<lparr>next_id := Suc (next_id s),
             calls := calls s @ [vcodec_cmd f, cmd]\<rparr>))) \<and>
   (\<not> lock_codec f \<and> fid f < next_id s \<and> allreencode e f s = (Inr r, s') \<longrightarrow>
    (if r = f
     then mediatype_of e (fid f) = Inr GIF \<and>
          (\<exists>out data st.
             tool e (vcodec_cmd f) = Some out \<and> json_loads e out = Some data \<and>
             stream_or_none data = Inr st \<and> getitem st ''codec_name'' = Inr (JStr ''gif'')) \<and>
          next_id s' = next_id s \<and> encoder_calls s' = encoder_calls s
     else fid r = next_id s \<and> \<not> lock_codec r \<and> next_id s' = Suc (next_id s) \<and>
          (\<exists>cmd. encoder_calls s' = encoder_calls s @ [cmd])))"
proof (intro conjI impI)
  assume h: "\<not> lock_codec f \<and> mediatype_of e (fid f) = Inr VIDEO \<and>
    tool e (va_codecs_cmd f) = Some out \<and> json_loads e out = Some data \<and>
    va_codecs_of data = Inr (Some (JStr ''h264'', JStr ''aac''))"
  then have "allreencode e f s = video_reencode e f s"
    by (simp add: allreencode_def bind_io_def lift_io_def)
  with h show "let outname = \<lparr>fid = next_id s, ext = ''mp4'', lock_codec = False\<rparr>;
         copy = [S ''ffmpeg'', S ''-hide_banner'', S ''-y'', S ''-i'', file_arg f,
                 S ''-c:v'', S ''copy'', S ''-c:a'', S ''copy'', S ''-movflags'',
                 S ''+faststart'', S ''-max_muxing_queue_size'', S ''9999'', file_arg outname]
     in allreencode e f s =
          (case tool e copy of None \<Rightarrow> Inl CommandError | Some _ \<Rightarrow> Inr outname,
           s\<lparr>next_id := Suc (next_id s),
             calls := calls s @ [va_codecs_cmd f, copy]\<rparr>)"
    by (simp add: Let_def video_reencode_copy [where out = out and data = data] stream_copy_cmd)
next
  assume h: "\<not> lock_codec f \<and> mediatype_of e (fid f) = Inr GIF \<and>
    tool e (vcodec_cmd f) = Some out \<and> json_loads e out = Some data \<and>
    stream_or_none data = Inr st \<and> getitem st ''codec_name'' = Inr (JStr ''gif'')"
  then have "allreencode e f s = videotogif e f s"
    by (simp add: allreencode_def bind_io_def lift_io_def)
  with h show "allreencode e f s = (Inr f, s\<lparr>calls := calls s @ [vcodec_cmd f]\<rparr>)"
    by (simp add: videotogif_gif [where out = out and data = data and st = st])
next
  assume h: "\<not> lock_codec f \<and> mediatype_of e (fid f) = Inr AUDIO \<and>
    tool e (acodec_cmd f) = Some out \<and> json_loads e out = Some data \<and>
    stream_or_none data = Inr st"
  then have "allreencode e f s = audio_reencode e f s"
    by (simp add: allreencode_def bind_io_def lift_io_def)
  with h show "let outname = \<lparr>fid = next_id s, ext = ''m4a'', lock_codec = False\<rparr>;
         cmd = audio_reencode_cmd f st outname
     in allreencode e f s =
          (case tool e cmd of None \<Rightarrow> Inl CommandError | Some _ \<Rightarrow> Inr outname,
           s\<lparr>next_id := Suc (next_id s),
             calls := calls s @ [acodec_cmd f, cmd]\<rparr>)"
    by (simp add: Let_def audio_reencode_run [where out = out and data = data])
next
  assume h: "\<not> lock_codec f \<and> mediatype_of e (fid f) = Inr IMAGE \<and>
    tool e (vcodec_cmd f) = Some out \<and> json_loads e out = Some data \<and>
    stream_or_none data = Inr st \<and> getitem st ''codec_name'' = Inr name"
  then have "allreencode e f s = mediatopng e f s"
    by (simp add: allreencode_def bind_io_def lift_io_def)
  with h show "let outname = \<lparr>fid = next_id s, ext = ''png'', lock_codec = False\<rparr>;
         cmd = mediatoimage_cmd f ''png'' name outname
     in allreencode e f s =
          (case tool e cmd of None \<Rightarrow> Inl CommandError | Some _ \<Rightarrow> Inr outname,
           s\<lparr>next_id := Suc (next_id s),
             calls := calls s @ [vcodec_cmd f, cmd]\<rparr>)"
    by (simp add: Let_def mediatopng_run [where out = out and data = data and st = st])
next
  assume h: "\<not> lock_codec f \<and> fid f < next_id s \<and> allreencode e f s = (Inr r, s')"
  then have "\<not> lock_codec f" and issued: "fid f < next_id s"
    and run: "allreencode e f s = (Inr r, s')"
    by simp_all
  from allreencode_result [OF this(1) run] issued
  show "if r = f
     then mediatype_of e (fid f) = Inr GIF \<and>
          (\<exists>out data st.
             tool e (vcodec_cmd f) = Some out \<and> json_loads e out = Some data \<and>
             stream_or_none data = Inr st \<and> getitem st ''codec_name'' = Inr (JStr ''gif'')) \<and>
          next_id s' = next_id s \<and> encoder_calls s' = encoder_calls s
     else fid r = next_id s \<and> \<not> lock_codec r \<and> next_id s' = Suc (next_id s) \<and>
          (\<exists>cmd. encoder_calls s' = encoder_calls s @ [cmd])"
    by auto
qed

lemma aac_entry_first: "stream_or_none (JObj [(''streams'', JArr [aac_entry])]) = Inr aac_entry"
  by (simp add: stream_or_none_def first_stream_def bind_e_def)

lemma png_entry_first: "stream_or_none (JObj [(''streams'', JArr [png_entry])]) = Inr png_entry"
  by (simp add: stream_or_none_def first_stream_def bind_e_def)

lemma png_entry_codec: "getitem png_entry ''codec_name'' = Inr (JStr ''png'')"
  by (simp add: png_entry_def)

theorem allreencode_canonical_codec_witness:
  "allreencode env_video video0 s0 =
     (Inr out1,
      s0\<lparr>next_id := 2,
         calls := [va_codecs_cmd video0,
           [S ''ffmpeg'', S ''-hide_banner'', S ''-y'', S ''-i'', F 0 ''mp4'', S ''-c:v'', S ''copy'',
            S ''-c:a'', S ''copy'', S ''-movflags'', S ''+faststart'',
            S ''-max_muxing_queue_size'', S ''9999'', F 1 ''mp4'']]\<rparr>) \<and>
   allreencode env_gif gif0 s0 = (Inr gif0, s0\<lparr>calls := [vcodec_cmd gif0]\<rparr>) \<and>
   allreencode env_audio audio0 s0 =
     (Inr audio1,
      s0\<lparr>next_id := 2,
         calls := [acodec_cmd audio0, audio_reencode_cmd audio0 aac_entry audio1]\<rparr>) \<and>
   allreencode env_png image0 s0 =
     (Inr image1,
      s0\<lparr>next_id := 2,
         calls := [vcodec_cmd image0, mediatoimage_cmd image0 ''png'' (JStr ''png'') image1]\<rparr>) \<and>
   audio1 \<noteq> audio0 \<and> fid audio1 = next_id s0 \<and>
   (\<exists>cmd. encoder_calls
            (s0\<lparr>next_id := 2,
               calls := [acodec_cmd audio0, audio_reencode_cmd audio0 aac_entry audio1]\<rparr>) =
          encoder_calls s0 @ [cmd]) \<and>
   mediatype_of env_gif (fid gif0) = Inr GIF"
proof -
  have hv: "\<not> lock_codec video0 \<and> mediatype_of env_video (fid video0) = Inr VIDEO \<and>
      tool env_video (va_codecs_cmd video0) = Some ''streams'' \<and>
      json_loads env_video ''streams'' = Some h264_aac \<and>
      va_codecs_of h264_aac = Inr (Some (JStr ''h264'', JStr ''aac''))"
    by (simp add: video0_def env_video_def h264_aac_codecs)
  have video: "allreencode env_video video0 s0 =
     (Inr out1,
      s0\<lparr>next_id := 2,
         calls := [va_codecs_cmd video0,
           [S ''ffmpeg'', S ''-hide_banner'', S ''-y'', S ''-i'', F 0 ''mp4'', S ''-c:v'', S ''copy'',
            S ''-c:a'', S ''copy'', S ''-movflags'', S ''+faststart'',
            S ''-max_muxing_queue_size'', S ''9999'', F 1 ''mp4'']]\<rparr>)"
    using allreencode_canonical_codec [where f = video0 and e = env_video
        and out = "''streams''" and data = h264_aac and s = s0 and st = JNull
        and name = JNull and r = video0 and s' = s0, THEN conjunct1, THEN mp, OF hv]
    by (simp add: Let_def env_video_def s0_def out1_def video0_def file_arg_def)
  have hg: "\<not> lock_codec gif0 \<and> mediatype_of env_gif (fid gif0) = Inr GIF \<and>
      tool env_gif (vcodec_cmd gif0) = Some ''streams'' \<and>
      json_loads env_gif ''streams'' = Some gif_stream \<and>
      stream_or_none gif_stream =
        Inr (JObj [(''codec_name'', JStr ''gif''), (''codec_long_name'', JStr ''GIF'')]) \<and>
      getitem (JObj [(''codec_name'', JStr ''gif''), (''codec_long_name'', JStr ''GIF'')])
        ''codec_name'' = Inr (JStr ''gif'')"
    by (simp add: gif0_def env_gif_def gif_stream_first)
  have gif: "allreencode env_gif gif0 s0 = (Inr gif0, s0\<lparr>calls := [vcodec_cmd gif0]\<rparr>)"
    using allreencode_canonical_codec [where f = gif0 and e = env_gif and out = "''streams''"
        and data = gif_stream and s = s0
        and st = "JObj [(''codec_name'', JStr ''gif''), (''codec_long_name'', JStr ''GIF'')]"
        and name = JNull and r = gif0 and s' = s0,
        THEN conjunct2, THEN conjunct1, THEN mp, OF hg]
    by (simp add: s0_def)
  have ha: "\<not> lock_codec audio0 \<and> mediatype_of env_audio (fid audio0) = Inr AUDIO \<and>
      tool env_audio (acodec_cmd audio0) = Some ''streams'' \<and>
      json_loads env_audio ''streams'' = Some (JObj [(''streams'', JArr [aac_entry])]) \<and>
      stream_or_none (JObj [(''streams'', JArr [aac_entry])]) = Inr aac_entry"
    by (simp add: audio0_def env_audio_def aac_entry_first)
  have audio: "allreencode env_audio audio0 s0 =
     (Inr audio1,
      s0\<lparr>next_id := 2,
         calls := [acodec_cmd audio0, audio_reencode_cmd audio0 aac_entry audio1]\<rparr>)"
    using allreencode_canonical_codec [where f = audio0 and e = env_audio
        and out = "''streams''" and data = "JObj [(''streams'', JArr [aac_entry])]"
        and st = aac_entry and s = s0 and name = JNull and r = audio0 and s' = s0,
        THEN conjunct2, THEN conjunct2, THEN conjunct1, THEN mp, OF ha]
    by (simp add: Let_def env_audio_def s0_def audio1_def)
  have hi: "\<not> lock_codec image0 \<and> mediatype_of env_png (fid image0) = Inr IMAGE \<and>
      tool env_png (vcodec_cmd image0) = Some ''streams'' \<and>
      json_loads env_png ''streams'' = Some (JObj [(''streams'', JArr [png_entry])]) \<and>
      stream_or_none (JObj [(''streams'', JArr [png_entry])]) = Inr png_entry \<and>
      getitem png_entry ''codec_name'' = Inr (JStr ''png'')"
    by (simp add: image0_def env_png_def png_entry_first png_entry_codec)
  have image: "allreencode env_png image0 s0 =
     (Inr image1,
      s0\<lparr>next_id := 2,
         calls := [vcodec_cmd image0, mediatoimage_cmd image0 ''png'' (JStr ''png'') image1]\<rparr>)"
    using allreencode_canonical_codec [where f = image0 and e = env_png
        and out = "''streams''" and data = "JObj [(''streams'', JArr [png_entry])]"
        and st = png_entry and name = "JStr ''png''" and s = s0 and r = image0 and s' = s0,
        THEN conjunct2, THEN conjunct2, THEN conjunct2, THEN conjunct1, THEN mp, OF hi]
    by (simp add: Let_def env_png_def s0_def image1_def)
  have differ: "audio1 \<noteq> audio0"
    by (simp add: audio1_def audio0_def)
  have hn: "\<not> lock_codec audio0 \<and> fid audio0 < next_id s0 \<and>
      allreencode env_audio audio0 s0 =
        (Inr audio1,
         s0\<lparr>next_id := 2,
            calls := [acodec_cmd audio0, audio_reencode_cmd audio0 aac_entry audio1]\<rparr>)"
    using audio by (simp add: audio0_def s0_def)
  have new: "fid audio1 = next_id s0 \<and>
    (\<exists>cmd. encoder_calls
            (s0\<lparr>next_id := 2,
               calls := [acodec_cmd audio0, audio_reencode_cmd audio0 aac_entry audio1]\<rparr>) =
          encoder_calls s0 @ [cmd])"
    using allreencode_canonical_codec [where f = audio0 and e = env_audio and s = s0
        and out = "''streams''" and data = JNull and st = JNull and name = JNull
        and r = audio1
        and s' = "s0\<lparr>next_id := 2,
           calls := [acodec_cmd audio0, audio_reencode_cmd audio0 aac_entry audio1]\<rparr>",
        THEN conjunct2, THEN conjunct2, THEN conjunct2, THEN conjunct2, THEN mp, OF hn]
      differ
    by (simp only: if_False)
  have hs: "\<not> lock_codec gif0 \<and> fid gif0 < next_id s0 \<and>
      allreencode env_gif gif0 s0 = (Inr gif0, s0\<lparr>calls := [vcodec_cmd gif0]\<rparr>)"
    using gif by (simp add: gif0_def s0_def)
  have kind: "mediatype_of env_gif (fid gif0) = Inr GIF"
    using allreencode_canonical_codec [where f = gif0 and e = env_gif and s = s0
        and out = "''streams''" and data = JNull and st = JNull and name = JNull
        and r = gif0 and s' = "s0\<lparr>calls := [vcodec_cmd gif0]\<rparr>",
        THEN conjunct2, THEN conjunct2, THEN conjunct2, THEN conjunct2, THEN mp, OF hs]
    by (simp only: refl if_True)
  show ?thesis
    apply (intro conjI)
    apply (rule video)
    apply (rule gif)
    apply (rule audio)
    apply (rule image)
    apply (rule differ)
    apply (rule new [THEN conjunct1])
    apply (rule new [THEN conjunct2])
    apply (rule kind)
    done
qed

text \<open>
  C2 as stated fails: for an unlocked H.264/AAC video \<open>allreencode\<close> returns a handle
  other than its input, the ledger has issued a file, and the encoder has been run.
\<close>

theorem allreencode_canonical_video_counterexample:
  "va_codecs_of h264_aac = Inr (Some (JStr ''h264'', JStr ''aac'')) \<and>
   fst (allreencode env_video video0 s0) = Inr out1 \<and> out1 \<noteq> video0 \<and>
   next_id s0 = 1 \<and> next_id (snd (allreencode env_video video0 s0)) = 2 \<and>
   encoder_calls (snd (allreencode env_video video0 s0)) =
     [video_reencode_cmd video0 (JStr ''h264'') (JStr ''aac'') out1]"
proof -
  have "video_reencode env_video video0 s0 =
     (Inr out1, s0\<lparr>next_id := 2, calls := [va_codecs_cmd video0,
        video_reencode_cmd video0 (JStr ''h264'') (JStr ''aac'') out1]\<rparr>)"
    using video_reencode_copy [where e = env_video and f = video0 and out = "''streams''"
        and data = h264_aac and s = s0]
    by (simp add: env_video_def h264_aac_codecs s0_def out1_def)
  then have "allreencode env_video video0 s0 =
     (Inr out1, s0\<lparr>next_id := 2, calls := [va_codecs_cmd video0,
        video_reencode_cmd video0 (JStr ''h264'') (JStr ''aac'') out1]\<rparr>)"
    by (simp add: allreencode_def video0_def env_video_def bind_io_def lift_io_def)
  then show ?thesis
    by (simp add: h264_aac_codecs encoder_calls_def s0_def out1_def video0_def
        va_codecs_cmd_def stream_copy_cmd)
qed

subsection \<open>The forced re-encode of a GIF\<close>

text \<open>
  C3 fails on the code for a GIF: \<open>forcereencode\<close> hands a GIF file whose video codec is
  already gif back unchanged, after one probe, with nothing reserved and no encoder
  run.
\<close>

theorem forcereencode_gif_passes_through:
  "fst (forcereencode env_gif gif0 s0) = Inr gif0 \<and>
   encoder_calls (snd (forcereencode env_gif gif0 s0)) = [] \<and>
   next_id (snd (forcereencode env_gif gif0 s0)) = next_id s0"
proof -
  have "videotogif env_gif gif0 s0 = (Inr gif0, s0\<lparr>calls := calls s0 @ [vcodec_cmd gif0]\<rparr>)"
    by (rule videotogif_gif [where out = "''streams''" and data = gif_stream,
          OF _ _ gif_stream_first])
       (simp_all add: env_gif_def)
  then have "forcereencode env_gif gif0 s0 =
      (Inr gif0, s0\<lparr>calls := calls s0 @ [vcodec_cmd gif0]\<rparr>)"
    by (simp add: forcereencode_def env_gif_def bind_io_def lift_io_def)
  then show ?thesis
    by (simp add: encoder_calls_def s0_def vcodec_cmd_def)
qed

subsection \<open>Timing of animated PNGs\<close>

lemma get_duration_first:
  assumes "map_of (duration_cache s) (fid f) = None" and "next_coro s \<notin> set (awaited s)"
  shows "fst (get_duration e f s) = fst (get_duration_body e f s)"
  using assms
  by (simp add: get_duration_def bind_io_def cached_call_def await_coro_def
      get_duration_body_def run_command_def lift_io_def split: prod.splits sum.splits)

lemma get_frame_rate_first:
  assumes "map_of (frame_rate_cache s) (fid f) = None" and "next_coro s \<notin> set (awaited s)"
  shows "fst (get_frame_rate e f s) = fst (get_frame_rate_body e f s)"
  using assms
  by (simp add: get_frame_rate_def bind_io_def cached_call_def await_coro_def
      get_frame_rate_body_def run_command_def lift_io_def split: prod.splits sum.splits)

lemma frame_delays_quotients:
  "frame_delays e frames =
    (if None \<in> set frames then Inl AttributeError
     else Inr (map (\<lambda>control. case the control of (delay, den) \<Rightarrow>
            fround e (of_int delay /
              of_int (case den of None \<Rightarrow> 100 | Some d \<Rightarrow> if d = 0 then 100 else d)))
          frames))"
proof (induction frames)
  case Nil
  show ?case by simp
next
  case (Cons control rest)
  show ?case
  proof (cases control)
    case None
    then show ?thesis by (simp add: frame_delay_def bind_e_def)
  next
    case (Some p)
    obtain delay den where p: "p = (delay, den)" by (cases p)
    show ?thesis
      using Cons.IH Some p by (simp add: frame_delay_def bind_e_def)
  qed
qed

lemma total_delay_sum:
  "total_delay e frames =
    (if None \<in> set frames then Inl AttributeError
     else Inr (py_sum e (map (\<lambda>control. case the control of (delay, den) \<Rightarrow>
            fround e (of_int delay /
              of_int (case den of None \<Rightarrow> 100 | Some d \<Rightarrow> if d = 0 then 100 else d)))
          frames)))"
  by (simp add: total_delay_def frame_delays_quotients bind_e_def)

lemma get_duration_body_result:
  assumes "tool e (duration_cmd f) = Some out"
  shows "fst (get_duration_body e f s) =
     (if out = ''N/A''
      then (case apng_open e (fid f) of Inl err \<Rightarrow> Inl err
            | Inr frames \<Rightarrow> total_delay e frames)
      else (case pyfloat e out of None \<Rightarrow> Inl ValueError | Some d \<Rightarrow> Inr d))"
  using assms
  by (simp add: get_duration_body_def bind_io_def run_command_def lift_io_def of_option_def
      get_apng_duration_def bind_e_def to_float_def split: option.splits sum.splits)

lemma get_frame_rate_body_result:
  assumes "tool e (frame_rate_cmd f) = Some out" and "json_loads e out = Some data"
    and "first_stream data = Inr st" and "getitem st ''codec_name'' = Inr c"
  shows "fst (get_frame_rate_body e f s) =
     (if c = JStr ''apng''
      then (case apng_open e (fid f) of Inl err \<Rightarrow> Inl err
            | Inr frames \<Rightarrow>
                (case total_delay e frames of Inl err \<Rightarrow> Inl err
                 | Inr tot \<Rightarrow>
                     if tot = 0 then Inl ZeroDivisionError
                     else Inr (fround e (of_nat (length frames) / tot))))
      else bind_e (getitem st ''r_frame_rate'') (parse_rate e))"
  using assms
  by (simp add: get_frame_rate_body_def bind_io_def run_command_def lift_io_def of_option_def
      get_apng_framerate_def bind_e_def loads_def split: option.splits sum.splits)

lemma apng_table_delay: "total_delay env_apng apng_table = Inr (3 / 2)"
  by (simp add: total_delay_def frame_delay_def apng_table_def bind_e_def py_sum_def
      env_apng_def)

lemma apng_table_delay_unavailable: "total_delay env_unavailable apng_table = Inr (3 / 2)"
  by (simp add: total_delay_def frame_delay_def apng_table_def bind_e_def py_sum_def
      env_unavailable_def)

lemma apng_table_length: "length apng_table = 3"
  by (simp add: apng_table_def)

lemma apng_stream_first:
  "first_stream apng_stream =
     Inr (JObj [(''codec_name'', JStr ''apng''), (''r_frame_rate'', JStr ''25/1'')])"
  by (simp add: first_stream_def apng_stream_def bind_e_def)

lemma generic_rate_25: "parse_rate env_apng (JStr ''25/1'') = Inr 25"
  by (simp add: parse_rate_def env_apng_def to_float_def of_option_def bind_e_def)

text \<open>
  C7, as amended. The two probes gate the frame-table path on different single
  conditions, not on their conjunction. On the first query for a file (the file is not
  in the function's cache and the coroutine object about to be created has not been
  awaited) and when the prober answers, \<open>get_duration\<close> takes the frame-table path exactly
  when the prober's answer is the text \<^verbatim>\<open>N/A\<close>, whatever the codec, and otherwise returns
  the prober's number. Under the same first-query condition, when the prober's answer
  parses and names a first stream with a codec, \<open>get_frame_rate\<close> takes the frame-table
  path exactly when that codec is apng, whether or not a generic frame rate is
  reported, and otherwise returns the generic rate. On the frame-table path an error of
  the library that opens the file is passed on; a frame without a control chunk is an
  attribute error; otherwise the duration is Python's \<^verbatim>\<open>sum\<close> of the float quotients
  delay / delay_den of the frames in order (delay_den read as 100 when absent or zero),
  the integer 0 when there is no frame, and the frame rate is the float quotient of the
  frame count by that sum, a division by zero when the sum is zero. The float quotient
  \<open>fround\<close> and the float sum \<open>fsum\<close> are Python's and are not computed here.
\<close>

theorem apng_timing_fallback:
  "(map_of (duration_cache s) (fid f) = None \<and> next_coro s \<notin> set (awaited s) \<and>
    tool e (duration_cmd f) = Some out \<longrightarrow>
    fst (get_duration e f s) =
      (if out = ''N/A''
       then (case apng_open e (fid f) of
               Inl err \<Rightarrow> Inl err
             | Inr frames \<Rightarrow> total_delay e frames)
       else (case pyfloat e out of None \<Rightarrow> Inl ValueError | Some d \<Rightarrow> Inr d))) \<and>
   (map_of (frame_rate_cache s) (fid f) = None \<and> next_coro s \<notin> set (awaited s) \<and>
    tool e (frame_rate_cmd f) = Some out \<and> json_loads e out = Some data \<and>
    first_stream data = Inr st \<and> getitem st ''codec_name'' = Inr c \<longrightarrow>
    fst (get_frame_rate e f s) =
      (if c = JStr ''apng''
       then (case apng_open e (fid f) of
               Inl err \<Rightarrow> Inl err
             | Inr frames \<Rightarrow>
                 (case total_delay e frames of
                    Inl err \<Rightarrow> Inl err
                  | Inr tot \<Rightarrow>
                      if tot = 0 then Inl ZeroDivisionError
                      else Inr (fround e (of_nat (length frames) / tot))))
       else bind_e (getitem st ''r_frame_rate'') (parse_rate e))) \<and>
   total_delay e frames =
     (if None \<in> set frames then Inl AttributeError
      else Inr (py_sum e (map (\<lambda>control. case the control of (delay, den) \<Rightarrow>
             fround e (of_int delay /
               of_int (case den of None \<Rightarrow> 100 | Some d \<Rightarrow> if d = 0 then 100 else d)))
           frames))) \<and>
   py_sum e qs = (if qs = [] then 0 else fsum e qs)"
proof (intro conjI impI)
  assume "map_of (duration_cache s) (fid f) = None \<and> next_coro s \<notin> set (awaited s) \<and>
    tool e (duration_cmd f) = Some out"
  then show "fst (get_duration e f s) =
      (if out = ''N/A''
       then (case apng_open e (fid f) of
               Inl err \<Rightarrow> Inl err
             | Inr frames \<Rightarrow> total_delay e frames)
       else (case pyfloat e out of None \<Rightarrow> Inl ValueError | Some d \<Rightarrow> Inr d))"
    by (simp add: get_duration_first get_duration_body_result [where out = out])
next
  assume "map_of (frame_rate_cache s) (fid f) = None \<and> next_coro s \<notin> set (awaited s) \<and>
    tool e (frame_rate_cmd f) = Some out \<and> json_loads e out = Some data \<and>
    first_stream data = Inr st \<and> getitem st ''codec_name'' = Inr c"
  then show "fst (get_frame_rate e f s) =
      (if c = JStr ''apng''
       then (case apng_open e (fid f) of
               Inl err \<Rightarrow> Inl err
             | Inr frames \<Rightarrow>
                 (case total_delay e frames of
                    Inl err \<Rightarrow> Inl err
                  | Inr tot \<Rightarrow>
                      if tot = 0 then Inl ZeroDivisionError
                      else Inr (fround e (of_nat (length frames) / tot))))
       else bind_e (getitem st ''r_frame_rate'') (parse_rate e))"
    by (simp add: get_frame_rate_first
        get_frame_rate_body_result [where out = out and data = data and st = st and c = c])
next
  show "total_delay e frames =
     (if None \<in> set frames then Inl AttributeError
      else Inr (py_sum e (map (\<lambda>control. case the control of (delay, den) \<Rightarrow>
             fround e (of_int delay /
               of_int (case den of None \<Rightarrow> 100 | Some d \<Rightarrow> if d = 0 then 100 else d)))
           frames)))"
    by (rule total_delay_sum)
next
  show "py_sum e qs = (if qs = [] then 0 else fsum e qs)"
    by (rule py_sum_def)
qed

theorem apng_timing_fallback_witness:
  "fst (get_duration env_unavailable apng0 s0) = Inr (3 / 2) \<and>
   fst (get_duration env_duration video0 s0) = Inr (25 / 2) \<and>
   fst (get_frame_rate env_apng apng0 s0) = Inr 2 \<and>
   total_delay env_apng apng_headless = Inl AttributeError \<and>
   total_delay env_apng [] = Inr 0"
proof (intro conjI)
  have h: "map_of (duration_cache s0) (fid apng0) = None \<and> next_coro s0 \<notin> set (awaited s0) \<and>
    tool env_unavailable (duration_cmd apng0) = Some ''N/A''"
    by (simp add: s0_def env_unavailable_def)
  have "apng_open env_unavailable (fid apng0) = Inr apng_table"
    by (simp add: env_unavailable_def)
  with apng_timing_fallback [where s = s0 and f = apng0 and e = env_unavailable
      and out = "''N/A''" and data = JNull and st = JNull and c = JNull and frames = "[]"
      and qs = "[]", THEN conjunct1, THEN mp, OF h]
  show "fst (get_duration env_unavailable apng0 s0) = Inr (3 / 2)"
    by (simp add: apng_table_delay_unavailable)
next
  have h: "map_of (duration_cache s0) (fid video0) = None \<and> next_coro s0 \<notin> set (awaited s0) \<and>
    tool env_duration (duration_cmd video0) = Some ''12.5''"
    by (simp add: s0_def env_duration_def)
  have "pyfloat env_duration ''12.5'' = Some (25 / 2)"
    by (simp add: env_duration_def)
  with apng_timing_fallback [where s = s0 and f = video0 and e = env_duration
      and out = "''12.5''" and data = JNull and st = JNull and c = JNull and frames = "[]"
      and qs = "[]", THEN conjunct1, THEN mp, OF h]
  show "fst (get_duration env_duration video0 s0) = Inr (25 / 2)"
    by simp
next
  have h: "map_of (frame_rate_cache s0) (fid apng0) = None \<and> next_coro s0 \<notin> set (awaited s0) \<and>
    tool env_apng (frame_rate_cmd apng0) = Some ''streams'' \<and>
    json_loads env_apng ''streams'' = Some apng_stream \<and>
    first_stream apng_stream =
      Inr (JObj [(''codec_name'', JStr ''apng''), (''r_frame_rate'', JStr ''25/1'')]) \<and>
    getitem (JObj [(''codec_name'', JStr ''apng''), (''r_frame_rate'', JStr ''25/1'')])
      ''codec_name'' = Inr (JStr ''apng'')"
    by (simp add: s0_def env_apng_def apng_stream_first)
  have "apng_open env_apng (fid apng0) = Inr apng_table" and "fround env_apng = (\<lambda>x. x)"
    by (simp_all add: env_apng_def)
  with apng_timing_fallback [where s = s0 and f = apng0 and e = env_apng
      and out = "''streams''" and data = apng_stream
      and st = "JObj [(''codec_name'', JStr ''apng''), (''r_frame_rate'', JStr ''25/1'')]"
      and c = "JStr ''apng''" and frames = "[]" and qs = "[]",
      THEN conjunct2, THEN conjunct1, THEN mp, OF h]
  show "fst (get_frame_rate env_apng apng0 s0) = Inr 2"
    by (simp add: apng_table_delay apng_table_length)
next
  show "total_delay env_apng apng_headless = Inl AttributeError"
    using apng_timing_fallback [where s = s0 and f = apng0 and e = env_apng
      and out = "''streams''" and data = JNull and st = JNull and c = JNull
      and frames = apng_headless and qs = "[]",
      THEN conjunct2, THEN conjunct2, THEN conjunct1]
    by (simp add: apng_headless_def)
next
  show "total_delay env_apng [] = Inr 0"
    using apng_timing_fallback [where s = s0 and f = apng0 and e = env_apng
      and out = "''streams''" and data = JNull and st = JNull and c = JNull
      and frames = "[]" and qs = "[]"]
    by simp
qed

text \<open>
  C7 as stated fails: for an apng file whose generic frame rate is available (25 per
  second), \<open>get_frame_rate\<close> still answers from the frame table (3 frames of half a
  second each, so 2 per second; the three quotients, their sum and the final quotient
  are exact in binary floating point).
\<close>

theorem get_frame_rate_apng_counterexample:
  "getitem (JObj [(''codec_name'', JStr ''apng''), (''r_frame_rate'', JStr ''25/1'')])
      ''r_frame_rate'' = Inr (JStr ''25/1'') \<and>
   parse_rate env_apng (JStr ''25/1'') = Inr 25 \<and>
   fst (get_frame_rate env_apng apng0 s0) = Inr 2"
proof -
  have "tool env_apng (frame_rate_cmd apng0) = Some ''streams''"
    and "json_loads env_apng ''streams'' = Some apng_stream"
    and "apng_open env_apng (fid apng0) = Inr apng_table" and "fround env_apng = (\<lambda>x. x)"
    by (simp_all add: env_apng_def)
  then have "fst (get_frame_rate_body env_apng apng0 s0) = Inr 2"
    using get_frame_rate_body_result [where e = env_apng and f = apng0 and s = s0
        and out = "''streams''" and data = apng_stream
        and st = "JObj [(''codec_name'', JStr ''apng''), (''r_frame_rate'', JStr ''25/1'')]"
        and c = "JStr ''apng''"]
    by (simp add: apng_stream_first apng_table_delay apng_table_length)
  moreover have "fst (get_frame_rate env_apng apng0 s0) = fst (get_frame_rate_body env_apng apng0 s0)"
    by (rule get_frame_rate_first) (simp_all add: s0_def apng0_def)
  ultimately show ?thesis
    by (simp add: generic_rate_25)
qed

subsection \<open>Resolution and the rotation tag\<close>

lemma pymod_zero_iff:
  assumes "m \<noteq> 0"
  shows "pymod x m = 0 \<longleftrightarrow> (\<exists>k::int. x = of_int k * m)"
proof
  assume "pymod x m = 0"
  then have "x = of_int \<lfloor>x / m\<rfloor> * m" by (simp add: pymod_def)
  then show "\<exists>k::int. x = of_int k * m" ..
next
  assume "\<exists>k::int. x = of_int k * m"
  then obtain k :: int where "x = of_int k * m" ..
  with assms show "pymod x m = 0" by (simp add: pymod_def)
qed

lemma odd_quarter_turns:
  "pymod rot 90 = 0 \<and> \<not> pymod rot 180 = 0 \<longleftrightarrow> (\<exists>k::int. odd k \<and> rot = 90 * of_int k)"
proof
  assume h: "pymod rot 90 = 0 \<and> \<not> pymod rot 180 = 0"
  then obtain k :: int where k: "rot = of_int k * 90"
    using pymod_zero_iff [of 90 rot] by auto
  have "odd k"
  proof
    assume "even k"
    then obtain j where "k = 2 * j" by (auto elim: evenE)
    with k have "rot = of_int j * 180" by simp
    then have "pymod rot 180 = 0" using pymod_zero_iff [of 180 rot] by auto
    with h show False by simp
  qed
  with k show "\<exists>k::int. odd k \<and> rot = 90 * of_int k" by (auto simp: mult.commute)
next
  assume "\<exists>k::int. odd k \<and> rot = 90 * of_int k"
  then obtain k :: int where k: "odd k" "rot = 90 * of_int k" by blast
  then have a: "pymod rot 90 = 0" using pymod_zero_iff [of 90 rot] by (auto simp: mult.commute)
  have "pymod rot 180 \<noteq> 0"
  proof
    assume "pymod rot 180 = 0"
    then obtain j :: int where "rot = of_int j * 180" using pymod_zero_iff [of 180 rot] by auto
    with k(2) have "(of_int k :: rat) = of_int (2 * j)" by simp
    then have "k = 2 * j" by (simp only: of_int_eq_iff)
    with k(1) show False by simp
  qed
  with a show "pymod rot 90 = 0 \<and> \<not> pymod rot 180 = 0" by simp
qed

lemma get_resolution_run:
  assumes "tool e (resolution_cmd f) = Some out" and "json_loads e out = Some data"
  shows "get_resolution e f s =
     (resolution_of e data, s\<lparr>calls := calls s @ [resolution_cmd f]\<rparr>)"
  using assms
  by (simp add: get_resolution_def bind_io_def run_command_def lift_io_def of_option_def
      loads_def bind_e_def)

lemma resolution_of_cases:
  assumes "first_stream data = Inr (JObj kvs)"
    and "map_of kvs ''width'' = Some w" and "map_of kvs ''height'' = Some h"
  shows "(map_of kvs ''tags'' = None \<longrightarrow> resolution_of e data = Inr [w, h]) \<and>
    (map_of kvs ''tags'' = Some (JObj tags) \<and> map_of tags ''rotate'' = None \<longrightarrow>
       resolution_of e data = Inr [w, h]) \<and>
    (map_of kvs ''tags'' = Some (JObj tags) \<and> map_of tags ''rotate'' = Some r \<and>
     float_of_json e r = Inr rot \<longrightarrow>
       resolution_of e data =
         Inr (if \<exists>k::int. odd k \<and> rot = 90 * of_int k then [h, w] else [w, h]))"
  using assms
  by (auto simp add: resolution_of_def bind_e_def odd_quarter_turns)

lemma odd_turn_90: "\<exists>k::int. odd k \<and> (90::rat) = 90 * of_int k"
  by (rule exI [of _ 1]) simp

lemma no_odd_turn_180: "\<not> (\<exists>k::int. odd k \<and> (180::rat) = 90 * of_int k)"
proof
  assume "\<exists>k::int. odd k \<and> (180::rat) = 90 * of_int k"
  then obtain k :: int where k: "odd k" "(180::rat) = 90 * of_int k" by blast
  then have "(of_int k :: rat) = of_int 2" by simp
  then have "k = 2" by (simp only: of_int_eq_iff)
  with k(1) show False by simp
qed

text \<open>
  C8. When the probe succeeds and the first stream has a width \<open>w\<close> and a height \<open>h\<close>,
  \<open>get_resolution\<close> reports \<open>[h, w]\<close> exactly when the stream has a rotate tag whose
  value is an odd multiple of 90, and \<open>[w, h]\<close> when there are no tags, no rotate tag, or
  any other rotation (the multiples of 180, zero among them).
\<close>

theorem get_resolution_swaps_on_odd_quarter_turn:
  assumes "tool e (resolution_cmd f) = Some out" and "json_loads e out = Some data"
    and "first_stream data = Inr (JObj kvs)"
    and "map_of kvs ''width'' = Some w" and "map_of kvs ''height'' = Some h"
  shows "(map_of kvs ''tags'' = None \<longrightarrow> fst (get_resolution e f s) = Inr [w, h]) \<and>
    (map_of kvs ''tags'' = Some (JObj tags) \<and> map_of tags ''rotate'' = None \<longrightarrow>
       fst (get_resolution e f s) = Inr [w, h]) \<and>
    (map_of kvs ''tags'' = Some (JObj tags) \<and> map_of tags ''rotate'' = Some r \<and>
     float_of_json e r = Inr rot \<longrightarrow>
       fst (get_resolution e f s) =
         Inr (if \<exists>k::int. odd k \<and> rot = 90 * of_int k then [h, w] else [w, h]))"
  using resolution_of_cases [OF assms(3,4,5), where tags = tags and e = e and r = r and rot = rot]
  by (simp add: get_resolution_run [OF assms(1,2)])

theorem get_resolution_swaps_on_odd_quarter_turn_witness:
  "fst (get_resolution (env_resolution plain_stream) video0 s0) = Inr [JNum 1920, JNum 1080] \<and>
   fst (get_resolution (env_resolution (rotated_stream ''90'')) video0 s0) =
     Inr [JNum 1080, JNum 1920] \<and>
   fst (get_resolution (env_resolution (rotated_stream ''180'')) video0 s0) =
     Inr [JNum 1920, JNum 1080]"
proof (intro conjI)
  show "fst (get_resolution (env_resolution plain_stream) video0 s0) =
      Inr [JNum 1920, JNum 1080]"
    using get_resolution_swaps_on_odd_quarter_turn
      [where e = "env_resolution plain_stream" and f = video0 and out = "''streams''"
        and data = plain_stream and s = s0 and w = "JNum 1920" and h = "JNum 1080"
        and kvs = "[(''width'', JNum 1920), (''height'', JNum 1080)]"]
    by (simp add: env_resolution_def plain_stream_def first_stream_def bind_e_def)
next
  show "fst (get_resolution (env_resolution (rotated_stream ''90'')) video0 s0) =
      Inr [JNum 1080, JNum 1920]"
    using get_resolution_swaps_on_odd_quarter_turn
      [where e = "env_resolution (rotated_stream ''90'')" and f = video0
        and out = "''streams''" and data = "rotated_stream ''90''" and s = s0
        and w = "JNum 1920" and h = "JNum 1080"
        and kvs = "[(''width'', JNum 1920), (''height'', JNum 1080),
                    (''tags'', JObj [(''rotate'', JStr ''90'')])]"
        and tags = "[(''rotate'', JStr ''90'')]" and r = "JStr ''90''" and rot = 90]
      odd_turn_90
    by (simp add: env_resolution_def rotated_stream_def first_stream_def bind_e_def
        to_float_def of_option_def)
next
  show "fst (get_resolution (env_resolution (rotated_stream ''180'')) video0 s0) =
      Inr [JNum 1920, JNum 1080]"
    using get_resolution_swaps_on_odd_quarter_turn
      [where e = "env_resolution (rotated_stream ''180'')" and f = video0
        and out = "''streams''" and data = "rotated_stream ''180''" and s = s0
        and w = "JNum 1920" and h = "JNum 1080"
        and kvs = "[(''width'', JNum 1920), (''height'', JNum 1080),
                    (''tags'', JObj [(''rotate'', JStr ''180'')])]"
        and tags = "[(''rotate'', JStr ''180'')]" and r = "JStr ''180''" and rot = 180]
      no_odd_turn_180
    by (simp add: env_resolution_def rotated_stream_def first_stream_def bind_e_def
        to_float_def of_option_def)
qed

subsection \<open>The cached probes\<close>

text \<open>
  C9 fails on the code. The cache holds the coroutine object of the first call, not its
  result: the second query for the same file costs no further probe, but it raises
  instead of returning the first call's result.
\<close>

theorem get_duration_second_call_raises:
  "fst (get_duration env_duration video0 s0) = Inr (25 / 2) \<and>
   fst (get_duration env_duration video0 (snd (get_duration env_duration video0 s0))) =
     Inl RuntimeError \<and>
   probe_calls (snd (get_duration env_duration video0
                       (snd (get_duration env_duration video0 s0)))) = [duration_cmd video0]"
proof -
  have first: "get_duration env_duration video0 s0 =
      (Inr (25 / 2),
       s0\<lparr>next_coro := 1, awaited := [0], duration_cache := [(0, 0)],
          calls := [duration_cmd video0]\<rparr>)"
    by (simp add: get_duration_def get_duration_body_def cached_call_def await_coro_def
        lru_miss_def io_defs to_float_def env_duration_def s0_def video0_def)
  have second: "get_duration env_duration video0
       (s0\<lparr>next_coro := 1, awaited := [0], duration_cache := [(0, 0)],
          calls := [duration_cmd video0]\<rparr>) =
      (Inl RuntimeError,
       s0\<lparr>next_coro := 1, awaited := [0], duration_cache := [(0, 0)],
          calls := [duration_cmd video0]\<rparr>)"
    by (simp add: get_duration_def cached_call_def await_coro_def lru_hit_def bind_io_def
        s0_def video0_def)
  show ?thesis
    unfolding first snd_conv fst_conv second
    by (simp add: probe_calls_def duration_cmd_def)
qed

subsection \<open>Single-frame extraction\<close>






subsection \<open>Candidates of one message\<close>

lemma embed_files_mixed:
  "embed_files net0 msg_mixed = Inr [Url ''https://host.example/e.mp4'']"
  by (simp add: embed_files_def msg_mixed_def embed_e_def net0_def bind_e_def)

lemma attachment_files_mixed:
  "attachment_files None msg_mixed = [Url ''https://cdn.example/a.png'']"
  by (simp add: attachment_files_def msg_mixed_def att_a_def txt_file_regex_def ends_txt_def)

lemma sticker_files_mixed: "sticker_files msg_mixed = [Url ''https://cdn.example/s.png'']"
  by (simp add: sticker_files_def msg_mixed_def sticker_s_def)

text \<open>
  C4 fails on the code. The attachments are taken all together or not at all: as soon as
  one attachment of the message is not in the list to ignore, every attachment without
  a \<^verbatim>\<open>.txt\<close> name is returned, the ignored ones included. Here the first of two
  attachments is to be ignored and is the one candidate returned.
\<close>

theorem imagesearch_returns_ignored_attachment:
  "imagesearch net0 ctx_two 1 (Some [att_a]) = Inr (Found [Url (aurl att_a)]) \<and>
   imagesearch net0 ctx_two 2 (Some [att_a]) = Inr (Found [Url (aurl att_a), Url (aurl att_b)])"
  by (simp add: imagesearch_def handlemessagesave_def extraction_message_def embed_files_def
      attachment_files_def sticker_files_def ctx_two_def msg_two_def att_a_def att_b_def
      txt_file_regex_def ends_txt_def py_prefix_def bind_e_def)

text \<open>
  C5, as amended. The candidates of one message come in the order the function works
  through it: first those of the embeds (resolved gif-host links and validated
  image, video and audio embeds), then those of the attachments, then those of the
  stickers.
\<close>

theorem handlemessagesave_order:
  assumes "handlemessagesave n m ignoreatts = Inr found"
  shows "\<exists>m' from_embeds.
           extraction_message m = Inr m' \<and> embed_files n m' = Inr from_embeds \<and>
           found = from_embeds @ attachment_files ignoreatts m' @ sticker_files m'"
proof -
  from assms obtain m' where m': "extraction_message m = Inr m'"
    by (cases "extraction_message m") (simp_all add: handlemessagesave_def bind_e_def)
  with assms obtain from_embeds where es: "embed_files n m' = Inr from_embeds"
    by (cases "embed_files n m'") (simp_all add: handlemessagesave_def bind_e_def)
  with assms m' have "found = from_embeds @ attachment_files ignoreatts m' @ sticker_files m'"
    by (simp add: handlemessagesave_def bind_e_def)
  with m' es show ?thesis by blast
qed

lemma handlemessagesave_mixed:
  "handlemessagesave net0 msg_mixed None =
     Inr [Url ''https://host.example/e.mp4'', Url ''https://cdn.example/a.png'',
          Url ''https://cdn.example/s.png'']"
  by (simp add: handlemessagesave_def extraction_message_def embed_files_mixed
      attachment_files_mixed sticker_files_mixed bind_e_def)
    (simp add: msg_mixed_def)

theorem handlemessagesave_order_witness:
  "\<exists>m' from_embeds.
      extraction_message msg_mixed = Inr m' \<and> embed_files net0 m' = Inr from_embeds \<and>
      [Url ''https://host.example/e.mp4'', Url ''https://cdn.example/a.png'',
       Url ''https://cdn.example/s.png''] =
      from_embeds @ attachment_files None m' @ sticker_files m'"
  using handlemessagesave_order [OF handlemessagesave_mixed] .

text \<open>
  C5 as stated fails: in the list of a message with an embed, an attachment and a sticker
  the embed's candidate comes first, before the attachment's.
\<close>

theorem handlemessagesave_order_counterexample:
  "handlemessagesave net0 msg_mixed None =
     Inr [Url ''https://host.example/e.mp4'', Url ''https://cdn.example/a.png'',
          Url ''https://cdn.example/s.png''] \<and>
   embed_files net0 msg_mixed = Inr [Url ''https://host.example/e.mp4''] \<and>
   attachment_files None msg_mixed = [Url ''https://cdn.example/a.png''] \<and>
   sticker_files msg_mixed = [Url ''https://cdn.example/s.png'']"
  by (simp add: embed_files_mixed attachment_files_mixed sticker_files_mixed
      handlemessagesave_def extraction_message_def bind_e_def)
    (simp add: msg_mixed_def)

subsection \<open>The bounded search\<close>

lemma py_prefix_length:
  assumes "1 \<le> n" and "n \<le> int (length xs)"
  shows "py_prefix n xs \<noteq> [] \<and> int (length (py_prefix n xs)) \<le> n"
  using assms by (auto simp add: py_prefix_def)

lemma history_walk_result:
  assumes "1 \<le> nargs" and "int (length outfiles) < nargs"
    and "history_walk n nargs ms seen outfiles = Inr r"
  shows "(case r of
            NotFound \<Rightarrow>
              outfiles = [] \<and>
              list_all (\<lambda>m. handlemessagesave n m None = Inr []) (unseen ms seen)
          | Found xs \<Rightarrow>
              xs \<noteq> [] \<and> int (length xs) \<le> nargs \<and>
              \<not> (outfiles = [] \<and>
                 list_all (\<lambda>m. handlemessagesave n m None = Inr []) (unseen ms seen)))"
  using assms(2,3)
proof (induction ms arbitrary: seen outfiles)
  case Nil
  then show ?case by (auto split: if_splits)
next
  case (Cons m ms)
  show ?case
  proof (cases "List.member seen (mid m)")
    case True
    with Cons.IH [of outfiles seen] Cons.prems show ?thesis
      by (cases r) auto
  next
    case False
    with Cons.prems(2) obtain found where found: "handlemessagesave n m None = Inr found"
      by (cases "handlemessagesave n m None") (simp_all add: bind_e_def)
    show ?thesis
    proof (cases "nargs \<le> int (length (outfiles @ found))")
      case True
      with Cons.prems False found have r: "r = Found (py_prefix nargs (outfiles @ found))"
        by (simp add: bind_e_def)
      from True Cons.prems(1) have "found \<noteq> [] \<or> outfiles \<noteq> []" by auto
      with r False found py_prefix_length [OF assms(1) True] Cons.prems(1) show ?thesis
        by auto
    next
      case short: False
      with Cons.prems False found
      have "history_walk n nargs ms (mid m # seen) (outfiles @ found) = Inr r"
        by (simp add: bind_e_def)
      from Cons.IH [OF _ this] short
      have "(case r of
            NotFound \<Rightarrow>
              outfiles @ found = [] \<and>
              list_all (\<lambda>m. handlemessagesave n m None = Inr []) (unseen ms (mid m # seen))
          | Found xs \<Rightarrow>
              xs \<noteq> [] \<and> int (length xs) \<le> nargs \<and>
              \<not> (outfiles @ found = [] \<and>
                 list_all (\<lambda>m. handlemessagesave n m None = Inr [])
                   (unseen ms (mid m # seen))))"
        by simp
      with False found show ?thesis
        by (cases r) auto
    qed
  qed
qed

text \<open>
  C6. For a count of at least 1, whenever \<open>imagesearch\<close> returns, it returns either
  \<^verbatim>\<open>False\<close> or a non-empty list of at most \<open>nargs\<close> candidates, and it returns \<^verbatim>\<open>False\<close>
  exactly when every message of the bounded walk (the triggering message, the resolved
  reply target, the first 50 of the history, each identifier once) yields no candidate.
\<close>

theorem imagesearch_bounded:
  assumes "1 \<le> nargs" and "imagesearch n ctx nargs ignore = Inr r"
  shows "(case r of
            NotFound \<Rightarrow>
              handlemessagesave n (message ctx) ignore = Inr [] \<and>
              list_all (\<lambda>m. handlemessagesave n m None = Inr []) (later_messages ctx)
          | Found xs \<Rightarrow>
              xs \<noteq> [] \<and> int (length xs) \<le> nargs \<and>
              \<not> (handlemessagesave n (message ctx) ignore = Inr [] \<and>
                 list_all (\<lambda>m. handlemessagesave n m None = Inr []) (later_messages ctx)))"
proof -
  from assms(2) obtain found where found: "handlemessagesave n (message ctx) ignore = Inr found"
    by (cases "handlemessagesave n (message ctx) ignore") (simp_all add: imagesearch_def bind_e_def)
  show ?thesis
  proof (cases "nargs \<le> int (length found)")
    case True
    with assms(2) found have "r = Found (py_prefix nargs found)"
      by (simp add: imagesearch_def bind_e_def)
    with py_prefix_length [OF assms(1) True] True assms(1) found show ?thesis
      by auto
  next
    case short: False
    show ?thesis
    proof (cases "\<exists>ref_msg. reference (message ctx) = Some (Some ref_msg)")
      case False
      then have later: "later_messages ctx =
          unseen (take 50 (channel_history ctx)) [mid (message ctx)]"
        by (auto simp add: later_messages_def split: option.splits)
      from False assms(2) found short
      have "history_walk n nargs (take 50 (channel_history ctx)) [mid (message ctx)] found = Inr r"
        by (auto simp add: imagesearch_def bind_e_def split: option.splits)
      from history_walk_result [OF assms(1) _ this] short found later show ?thesis
        by (cases r) auto
    next
      case True
      then obtain ref_msg where ref: "reference (message ctx) = Some (Some ref_msg)" ..
      then have later: "later_messages ctx =
          ref_msg # unseen (take 50 (channel_history ctx)) [mid ref_msg, mid (message ctx)]"
        by (simp add: later_messages_def)
      from assms(2) found short ref obtain found'
        where found': "handlemessagesave n ref_msg None = Inr found'"
        by (cases "handlemessagesave n ref_msg None") (simp_all add: imagesearch_def bind_e_def)
      show ?thesis
      proof (cases "nargs \<le> int (length (found @ found'))")
        case True
        with assms(2) found short ref found'
        have "r = Found (py_prefix nargs (found @ found'))"
          by (simp add: imagesearch_def bind_e_def)
        with py_prefix_length [OF assms(1) True] True assms(1) found found' later show ?thesis
          by auto
      next
        case False
        with assms(2) found short ref found'
        have "history_walk n nargs (take 50 (channel_history ctx))
                [mid ref_msg, mid (message ctx)] (found @ found') = Inr r"
          by (simp add: imagesearch_def bind_e_def)
        from history_walk_result [OF assms(1) _ this] False found found' later show ?thesis
          by (cases r) auto
      qed
    qed
  qed
qed

lemma handlemessagesave_empty: "handlemessagesave net0 msg_empty ignoreatts = Inr []"
  by (simp add: handlemessagesave_def extraction_message_def embed_files_def
      attachment_files_def sticker_files_def msg_empty_def bind_e_def)

lemma imagesearch_nothing: "imagesearch net0 ctx_nothing 5 None = Inr NotFound"
  by (simp add: imagesearch_def ctx_nothing_def handlemessagesave_empty bind_e_def)
    (simp add: msg_empty_def)

lemma imagesearch_history: "imagesearch net0 ctx_empty 2 None =
    Inr (Found [Url ''https://host.example/e.mp4'', Url ''https://cdn.example/a.png''])"
  by (simp add: imagesearch_def ctx_empty_def handlemessagesave_empty handlemessagesave_mixed
      bind_e_def py_prefix_def)
    (simp add: msg_empty_def msg_mixed_def handlemessagesave_mixed
      [unfolded msg_mixed_def] bind_e_def py_prefix_def)

theorem imagesearch_bounded_witness:
  "handlemessagesave net0 (message ctx_nothing) None = Inr [] \<and>
   list_all (\<lambda>m. handlemessagesave net0 m None = Inr []) (later_messages ctx_nothing) \<and>
   imagesearch net0 ctx_empty 2 None =
     Inr (Found [Url ''https://host.example/e.mp4'', Url ''https://cdn.example/a.png'']) \<and>
   \<not> (handlemessagesave net0 (message ctx_empty) None = Inr [] \<and>
      list_all (\<lambda>m. handlemessagesave net0 m None = Inr []) (later_messages ctx_empty))"
  using imagesearch_bounded [OF _ imagesearch_nothing] imagesearch_bounded [OF _ imagesearch_history]
  by (simp add: imagesearch_history)

end
